theory Spec2Isabelle
  imports Complex_Main
begin

section \<open>Values, errors and the outside world\<close>

text \<open>
  The client exchanges JSON with the server. A decoded JSON value is one of Python's
  \<open>None\<close>, \<open>bool\<close>, \<open>int\<close>, \<open>str\<close>, \<open>list\<close> and \<open>dict\<close>; a \<open>dict\<close> is kept as the
  list of its items (keys are unique in a decoded object, and \<open>map_of\<close> reads the first).
  Non-integral JSON numbers are left out. Strings are lists of code points below 256.
\<close>

datatype json =
    JNull
  | JBool bool
  | JInt int
  | JStr string
  | JArr "json list"
  | JObj "(string \<times> json) list"

type_synonym dict = "(string \<times> json) list"

text \<open>\<open>d.get(k, default)\<close> on a dict.\<close>

definition get_or :: "dict \<Rightarrow> string \<Rightarrow> json \<Rightarrow> json" where
  "get_or d k dflt = (case map_of d k of Some v \<Rightarrow> v | None \<Rightarrow> dflt)"

text \<open>Python's truth value of an object, as tested by \<open>if x\<close>, \<open>not x\<close> and \<open>x or y\<close>.\<close>

fun truthy :: "json \<Rightarrow> bool" where
  "truthy JNull = False"
| "truthy (JBool b) = b"
| "truthy (JInt i) = (i \<noteq> 0)"
| "truthy (JStr s) = (s \<noteq> [])"
| "truthy (JArr xs) = (xs \<noteq> [])"
| "truthy (JObj kv) = (kv \<noteq> [])"

definition py_or :: "json \<Rightarrow> json \<Rightarrow> json" where
  "py_or x y = (if truthy x then x else y)"

text \<open>
  The text of an exception or of a header: literal text, a value interpolated by an
  f-string (or passed as the exception's argument), and the text of the
  \<open>aiohttp.ClientResponseError\<close> that \<open>raise_for_status()\<close> raises for a status.
\<close>

datatype piece = Lit string | Shown json | ResponseError nat

type_synonym message = "piece list"

text \<open>
  exceptions.py: the three kinds of the library, and \<open>Uncaught\<close> for any other Python
  exception that leaves a function (named by its class).
\<close>

datatype error =
    AlulaAuthError message
  | AlulaApiError message json
  | AlulaConnectionError message
  | Uncaught string

text \<open>
  What \<open>await resp.json()\<close> gives: the decoded object, an \<open>aiohttp.ContentTypeError\<close>
  (a \<open>ClientError\<close>) or a \<open>json.JSONDecodeError\<close> (a \<open>ValueError\<close>). What the session gives
  for one call: a response with its status, an \<open>aiohttp.ClientError\<close>, or another exception
  (a subclass of \<open>Exception\<close>, such as \<open>TimeoutError\<close>; cancellation is not modelled).
\<close>

datatype decoded = Json dict | ContentTypeError string | JSONDecodeError

datatype exchange = Response nat decoded | ClientError string | OtherException string

datatype request =
    FormPost string "(string \<times> json) list" "(string \<times> message) list"
  | ApiRequest string string "(string \<times> message) list" "dict option" "(string \<times> string) list option"

text \<open>
  The world outside the client: the answer of the network to the i-th call of the session,
  the reading of \<open>time.time()\<close> after i calls (float timestamps are taken as reals), the
  text \<open>str(uuid.uuid4()).upper()\<close> drawn after i calls, and the calls sent so far, oldest
  first.
\<close>

record world =
  net :: "nat \<Rightarrow> exchange"
  clock :: "nat \<Rightarrow> real"
  uuid4 :: "nat \<Rightarrow> string"
  sent :: "request list"

definition now :: "world \<Rightarrow> real" where
  "now w = clock w (length (sent w))"

definition http :: "request \<Rightarrow> world \<Rightarrow> exchange \<times> world" where
  "http r w = (net w (length (sent w)), w\<lparr>sent := sent w @ [r]\<rparr>)"

section \<open>const.py\<close>

definition API_BASE_URL :: string where
  "API_BASE_URL = ''https://api.alula.net''"

definition COVE_CLIENT_ID :: string where
  "COVE_CLIENT_ID = ''30d6c020-8b9d-11ed-a23f-9d00c9041c6e''"

definition COVE_CLIENT_SECRET :: string where
  "COVE_CLIENT_SECRET = ''a867fb60cbe5803a54bc2bd03b30031c30bc8088d11de59daa36669661d7b2bb''"

definition TOKEN_EXPIRES_IN_DEFAULT :: int where
  "TOKEN_EXPIRES_IN_DEFAULT = 900"

definition TOKEN_REFRESH_BUFFER :: int where
  "TOKEN_REFRESH_BUFFER = 180"

definition DEFAULT_PAGE_SIZE :: int where
  "DEFAULT_PAGE_SIZE = 200"

definition USER_AGENT :: string where
  "USER_AGENT = ''alulapy/0.1.0''"

section \<open>client.py: token state\<close>

text \<open>
  The fields of \<open>AlulaClient\<close>. The tokens hold whatever the token endpoint sent
  (\<open>JNull\<close> is \<open>None\<close>).
\<close>

record client =
  client_id :: string
  client_secret :: string
  base_url :: string
  access_token :: json
  refresh_token :: json
  token_expiry :: real
  user_id :: json

definition init :: "string \<Rightarrow> string \<Rightarrow> string \<Rightarrow> client" where
  "init cid secret base =
     \<lparr>client_id = cid, client_secret = secret, base_url = base,
      access_token = JNull, refresh_token = JNull, token_expiry = 0, user_id = JNull\<rparr>"

definition oauth_url :: "client \<Rightarrow> string" where
  "oauth_url c = base_url c @ ''/oauth/token''"

definition is_authenticated :: "client \<Rightarrow> world \<Rightarrow> bool" where
  "is_authenticated c w =
     (access_token c \<noteq> JNull \<and> now w < token_expiry c - of_int TOKEN_REFRESH_BUFFER)"

definition restore_tokens :: "string \<Rightarrow> string \<Rightarrow> int \<Rightarrow> client \<Rightarrow> world \<Rightarrow> client \<times> world" where
  "restore_tokens access refresh expires_in c w =
     (c\<lparr>access_token := JStr access, refresh_token := JStr refresh,
        token_expiry := now w + of_int (min expires_in 300)\<rparr>, w)"

datatype TokenInfo = TokenInfo json json json json json

text \<open>\<open>time.time() + expires_in\<close>: an int or a bool adds, anything else is a TypeError.\<close>

fun as_number :: "json \<Rightarrow> int option" where
  "as_number (JInt n) = Some n"
| "as_number (JBool b) = Some (if b then 1 else 0)"
| "as_number _ = None"

definition auth_headers :: "(string \<times> message) list" where
  "auth_headers =
     [(''Content-Type'', [Lit ''application/x-www-form-urlencoded'']),
      (''Accept'', [Lit ''application/json'']),
      (''User-Agent'', [Lit USER_AGENT])]"

text \<open>
  \<open>_token_request\<close>. The body is decoded before the status is looked at;
  \<open>raise_for_status()\<close> raises a \<open>ClientResponseError\<close> (a \<open>ClientError\<close>) for a status of
  400 and above. The tokens are stored before the expiry is computed.
\<close>

definition store_tokens :: "dict \<Rightarrow> client \<Rightarrow> world \<Rightarrow> (error + TokenInfo) \<times> client \<times> world" where
  "store_tokens body c w =
     (case map_of body ''access_token'' of
        None \<Rightarrow> (Inl (Uncaught ''KeyError''), c, w)
      | Some a \<Rightarrow>
         (case map_of body ''refresh_token'' of
            None \<Rightarrow> (Inl (Uncaught ''KeyError''), c, w)
          | Some r \<Rightarrow>
             (let expires_in = get_or body ''expires_in'' (JInt TOKEN_EXPIRES_IN_DEFAULT);
                  info = TokenInfo a r expires_in
                           (get_or body ''token_type'' (JStr ''bearer''))
                           (get_or body ''scope'' (JStr ''''));
                  c1 = c\<lparr>access_token := a, refresh_token := r\<rparr>
              in case as_number expires_in of
                   None \<Rightarrow> (Inl (Uncaught ''TypeError''), c1, w)
                 | Some n \<Rightarrow> (Inr info, c1\<lparr>token_expiry := now w + of_int n\<rparr>, w))))"

definition token_request :: "(string \<times> json) list \<Rightarrow> client \<Rightarrow> world \<Rightarrow> (error + TokenInfo) \<times> client \<times> world" where
  "token_request kwargs c w =
     (let dat = [(''client_id'', JStr (client_id c)), (''client_secret'', JStr (client_secret c))] @ kwargs;
          (x, w1) = http (FormPost (oauth_url c) dat auth_headers) w
      in case x of
           ClientError e \<Rightarrow>
             (Inl (AlulaConnectionError [Lit ''Connection error during auth: '', Lit e]), c, w1)
         | OtherException e \<Rightarrow> (Inl (Uncaught e), c, w1)
         | Response status d \<Rightarrow>
            (case d of
               ContentTypeError e \<Rightarrow>
                 (Inl (AlulaConnectionError [Lit ''Connection error during auth: '', Lit e]), c, w1)
             | JSONDecodeError \<Rightarrow> (Inl (Uncaught ''JSONDecodeError''), c, w1)
             | Json body \<Rightarrow>
                 if status = 401 then
                   (Inl (AlulaAuthError
                      [Shown (get_or body ''error_description'' (JStr ''Invalid credentials''))]), c, w1)
                 else if status = 400 then
                   (Inl (AlulaAuthError
                      (case map_of body ''error_description'' of
                         Some v \<Rightarrow> [Shown v]
                       | None \<Rightarrow> [Lit ''Auth error: '', Shown (JObj body)])), c, w1)
                 else if 400 \<le> status then
                   (Inl (AlulaConnectionError
                      [Lit ''Connection error during auth: '', ResponseError status]), c, w1)
                 else store_tokens body c w1))"

definition async_login :: "string \<Rightarrow> string \<Rightarrow> client \<Rightarrow> world \<Rightarrow> (error + TokenInfo) \<times> client \<times> world" where
  "async_login username password c w =
     token_request [(''grant_type'', JStr ''password''), (''username'', JStr username),
                    (''password'', JStr password)] c w"

text \<open>\<open>async_refresh\<close>: the argument is a \<open>str\<close> or \<open>None\<close>.\<close>

definition async_refresh :: "string option \<Rightarrow> client \<Rightarrow> world \<Rightarrow> (error + TokenInfo) \<times> client \<times> world" where
  "async_refresh arg c w =
     (let token = py_or (case arg of None \<Rightarrow> JNull | Some s \<Rightarrow> JStr s) (refresh_token c)
      in if \<not> truthy token then
           (Inl (AlulaAuthError [Lit ''No refresh token available'']), c, w)
         else token_request [(''grant_type'', JStr ''refresh_token''), (''refresh_token'', token)] c w)"

text \<open>\<open>_ensure_token\<close>. One task runs at a time, so the lock is always free.\<close>

definition ensure_token :: "client \<Rightarrow> world \<Rightarrow> (error + unit) \<times> client \<times> world" where
  "ensure_token c w =
     (if is_authenticated c w then (Inr (), c, w)
      else if truthy (refresh_token c) then
        (case async_refresh None c w of
           (Inl e, c1, w1) \<Rightarrow> (Inl e, c1, w1)
         | (Inr _, c1, w1) \<Rightarrow> (Inr (), c1, w1))
      else
        (Inl (AlulaAuthError
           [Lit ''Access token expired and no refresh token available. Call async_login() first.'']),
         c, w))"

section \<open>client.py: the request pipeline\<close>

definition request_headers :: "json \<Rightarrow> dict option \<Rightarrow> (string \<times> message) list" where
  "request_headers token json_data =
     [(''Authorization'', [Lit ''Bearer '', Shown token]),
      (''Accept'', [Lit ''application/json'']),
      (''User-Agent'', [Lit USER_AGENT])]
     @ (if json_data \<noteq> None then [(''Content-Type'', [Lit ''application/json''])] else [])"

definition connection_error :: "string \<Rightarrow> string \<Rightarrow> piece \<Rightarrow> error" where
  "connection_error method path err =
     AlulaConnectionError [Lit ''Connection error: '', Lit method, Lit '' '', Lit path, Lit '': '', err]"

text \<open>
  \<open>resp.raise_for_status()\<close> followed by \<open>return await resp.json()\<close>, under the handlers of
  \<open>_request\<close>: a \<open>ClientError\<close> becomes an \<open>AlulaConnectionError\<close>, anything else passes.
\<close>

definition read_body :: "string \<Rightarrow> string \<Rightarrow> nat \<Rightarrow> decoded \<Rightarrow> error + dict" where
  "read_body method path status d =
     (if 400 \<le> status then Inl (connection_error method path (ResponseError status))
      else case d of
             Json body \<Rightarrow> Inr body
           | ContentTypeError e \<Rightarrow> Inl (connection_error method path (Lit e))
           | JSONDecodeError \<Rightarrow> Inl (Uncaught ''JSONDecodeError''))"

text \<open>
  \<open>_request\<close>. \<open>_ensure_token\<close> runs outside the \<open>try\<close>. Inside it, an \<open>AlulaAuthError\<close> is
  re-raised, an \<open>aiohttp.ClientError\<close> becomes an \<open>AlulaConnectionError\<close>, and any other
  exception (also the \<open>AlulaConnectionError\<close> of a failed refresh) passes unchanged.
\<close>

definition request ::
  "string \<Rightarrow> string \<Rightarrow> dict option \<Rightarrow> (string \<times> string) list option \<Rightarrow> client \<Rightarrow> world
     \<Rightarrow> (error + dict) \<times> client \<times> world" where
  "request method path json_data params c w =
     (case ensure_token c w of
        (Inl e, c1, w1) \<Rightarrow> (Inl e, c1, w1)
      | (Inr _, c1, w1) \<Rightarrow>
         (let url = base_url c1 @ path;
              (x, w2) = http (ApiRequest method url (request_headers (access_token c1) json_data)
                                json_data params) w1
          in case x of
               ClientError e \<Rightarrow> (Inl (connection_error method path (Lit e)), c1, w2)
             | OtherException e \<Rightarrow> (Inl (Uncaught e), c1, w2)
             | Response status d \<Rightarrow>
                 if status = 401 then
                   (case async_refresh None c1 w2 of
                      (Inl e, c3, w3) \<Rightarrow> (Inl e, c3, w3)
                    | (Inr _, c3, w3) \<Rightarrow>
                       (let (y, w4) = http (ApiRequest method url
                                              (request_headers (access_token c3) json_data)
                                              json_data params) w3
                        in case y of
                             ClientError e \<Rightarrow> (Inl (connection_error method path (Lit e)), c3, w4)
                           | OtherException e \<Rightarrow> (Inl (Uncaught e), c3, w4)
                           | Response status' d' \<Rightarrow>
                               if status' = 401 then
                                 (Inl (AlulaAuthError [Lit ''Authentication failed after refresh'']),
                                  c3, w4)
                               else (read_body method path status' d', c3, w4)))
                 else (read_body method path status d, c1, w2)))"

section \<open>client.py: JSON-RPC and arm/disarm\<close>

definition rpc_payload :: "string \<Rightarrow> dict option \<Rightarrow> world \<Rightarrow> dict" where
  "rpc_payload rpc_method params w =
     [(''id'', JStr (uuid4 w (length (sent w)))),
      (''method'', JStr rpc_method),
      (''params'', py_or (case params of None \<Rightarrow> JNull | Some d \<Rightarrow> JObj d) (JObj []))]"

text \<open>
  \<open>_rpc\<close>. \<open>err.get("code")\<close> needs the error to be a dict; \<open>None\<close> for an absent code is
  \<open>JNull\<close>.
\<close>

definition rpc ::
  "string \<Rightarrow> dict option \<Rightarrow> string \<Rightarrow> client \<Rightarrow> world \<Rightarrow> (error + json) \<times> client \<times> world" where
  "rpc rpc_method params path c w =
     (case request ''POST'' path (Some (rpc_payload rpc_method params w)) None c w of
        (Inl e, c1, w1) \<Rightarrow> (Inl e, c1, w1)
      | (Inr result, c1, w1) \<Rightarrow>
         (case map_of result ''error'' of
            Some err \<Rightarrow>
              (case err of
                 JObj e \<Rightarrow>
                   (Inl (AlulaApiError [Lit ''RPC error ('', Lit rpc_method, Lit ''): '', Shown err]
                           (get_or e ''code'' JNull)), c1, w1)
               | _ \<Rightarrow> (Inl (Uncaught ''AttributeError''), c1, w1))
          | None \<Rightarrow> (Inr (get_or result ''result'' (JObj [])), c1, w1)))"

text \<open>Python's \<open>x == n\<close> for a decoded value and an int: \<open>True\<close> is 1 and \<open>False\<close> is 0.\<close>

fun py_eq_int :: "json \<Rightarrow> int \<Rightarrow> bool" where
  "py_eq_int (JInt k) n = (k = n)"
| "py_eq_int (JBool b) n = ((if b then 1 else 0) = n)"
| "py_eq_int _ n = False"

definition interactive_off :: "string \<Rightarrow> message" where
  "interactive_off device_id =
     [Lit ''Arm/disarm command denied: interactiveEnabled is off on device '', Lit device_id,
      Lit ''. Contact your alarm provider (e.g., Cove support) and ask them to enable interactive services on your device.'']"

definition helix_command ::
  "string \<Rightarrow> string \<Rightarrow> client \<Rightarrow> world \<Rightarrow> (error + json) \<times> client \<times> world" where
  "helix_command device_id dat c w =
     (case rpc ''helix.command'' (Some [(''deviceId'', JStr device_id), (''data'', JStr dat)])
             ''/rpc/v1'' c w of
        (Inl (AlulaApiError msg status_code), c1, w1) \<Rightarrow>
          if py_eq_int status_code 6
          then (Inl (AlulaApiError (interactive_off device_id) (JInt 6)), c1, w1)
          else (Inl (AlulaApiError msg status_code), c1, w1)
      | other \<Rightarrow> other)"

definition async_arm_stay :: "string \<Rightarrow> client \<Rightarrow> world \<Rightarrow> (error + json) \<times> client \<times> world" where
  "async_arm_stay device_id c w = helix_command device_id ''armStay'' c w"

definition async_arm_away :: "string \<Rightarrow> client \<Rightarrow> world \<Rightarrow> (error + json) \<times> client \<times> world" where
  "async_arm_away device_id c w = helix_command device_id ''armAway'' c w"

definition async_arm_night :: "string \<Rightarrow> client \<Rightarrow> world \<Rightarrow> (error + json) \<times> client \<times> world" where
  "async_arm_night device_id c w = helix_command device_id ''armNight'' c w"

definition async_disarm :: "string \<Rightarrow> client \<Rightarrow> world \<Rightarrow> (error + json) \<times> client \<times> world" where
  "async_disarm device_id c w = helix_command device_id ''disarm'' c w"

definition async_renew_notifications :: "int \<Rightarrow> client \<Rightarrow> world \<Rightarrow> (error + json) \<times> client \<times> world" where
  "async_renew_notifications ttl c w =
     (case rpc ''events.notifications.renew'' (Some [(''ttl'', JInt ttl)]) ''/rpc/v1'' c w of
        (Inl e, c1, w1) \<Rightarrow> (Inl e, c1, w1)
      | (Inr (JObj result), c1, w1) \<Rightarrow> (Inr (get_or result ''success'' (JBool False)), c1, w1)
      | (Inr _, c1, w1) \<Rightarrow> (Inl (Uncaught ''AttributeError''), c1, w1))"

section \<open>const.py and models.py: devices\<close>

datatype ArmingState = DISARMED | ARMED_STAY | ARMED_AWAY | ARMED_NIGHT | UNKNOWN

datatype DeviceType = PANEL | CAMERA | UNKNOWN

text \<open>
  \<open>ArmingState(value)\<close>, the lookup of a member by its value: \<open>None\<close> stands for the
  \<open>ValueError\<close> raised for a value that belongs to no member.
\<close>

fun ArmingState_call :: "json \<Rightarrow> ArmingState option" where
  "ArmingState_call (JStr s) =
     (if s = ''disarm'' then Some DISARMED
      else if s = ''armstay'' then Some ARMED_STAY
      else if s = ''armaway'' then Some ARMED_AWAY
      else if s = ''armnight'' then Some ARMED_NIGHT
      else if s = ''unknown'' then Some ArmingState.UNKNOWN
      else None)"
| "ArmingState_call _ = None"

text \<open>
  The dataclass \<open>Device\<close>. Fields read from the response keep the value they came with;
  the field \<open>id\<close> is \<open>id'\<close> here.
\<close>

record Device =
  id' :: json
  name :: json
  serial_number :: json
  mac_address :: json
  device_type :: DeviceType
  connected_panel_type :: json
  timezone :: json
  online :: json
  online_timestamp :: json
  arming_state :: ArmingState
  last_armed_at :: json
  last_disarmed_at :: json
  any_trouble :: json
  ac_failure :: json
  low_battery :: json
  server_comm_fail :: json
  cs_comm_fail :: json
  low_battery_zones :: json
  tamper_zones :: json
  alarm_zones :: json
  trouble_zones :: json
  fire_trouble :: json
  arming_protest :: json
  features :: json
  raw :: dict

definition is_panel :: "Device \<Rightarrow> bool" where
  "is_panel d = (device_type d = PANEL)"

definition is_camera :: "Device \<Rightarrow> bool" where
  "is_camera d = (device_type d = CAMERA)"

definition is_armed :: "Device \<Rightarrow> bool" where
  "is_armed d = (arming_state d = ARMED_STAY \<or> arming_state d = ARMED_AWAY \<or> arming_state d = ARMED_NIGHT)"

definition parse_device_type :: "dict \<Rightarrow> DeviceType" where
  "parse_device_type attrs =
     (if truthy (get_or attrs ''isPanel'' JNull) then PANEL
      else if truthy (get_or attrs ''isCamera'' JNull) then CAMERA
      else DeviceType.UNKNOWN)"

definition parse_arming_state :: "dict \<Rightarrow> ArmingState" where
  "parse_arming_state attrs =
     (let raw_arming = get_or attrs ''armingLevel'' JNull
      in if truthy raw_arming then
           (case ArmingState_call raw_arming of
              Some st \<Rightarrow> st
            | None \<Rightarrow> ArmingState.UNKNOWN)
         else ArmingState.UNKNOWN)"

text \<open>
  \<open>Device.from_api\<close>. \<open>attrs.get\<close> needs the attributes to be a dict; on any other value it
  raises an AttributeError.
\<close>

definition Device_from_api :: "dict \<Rightarrow> error + Device" where
  "Device_from_api data =
     (case get_or data ''attributes'' (JObj []) of
        JObj attrs \<Rightarrow>
          Inr \<lparr>id' = get_or data ''id'' (JStr ''''),
               name = get_or attrs ''friendlyName'' (JStr ''Unknown Device''),
               serial_number = get_or attrs ''sn'' (JStr ''''),
               mac_address = get_or attrs ''mac'' JNull,
               device_type = parse_device_type attrs,
               connected_panel_type = get_or attrs ''connectedPanel'' JNull,
               timezone = get_or attrs ''timezone'' (JStr ''UTC''),
               online = get_or attrs ''onlineStatus'' (JBool False),
               online_timestamp = get_or attrs ''onlineStatusTimestamp'' JNull,
               arming_state = parse_arming_state attrs,
               last_armed_at = get_or attrs ''lastArmedAt'' JNull,
               last_disarmed_at = get_or attrs ''lastDisarmedAt'' JNull,
               any_trouble = get_or attrs ''anyTrouble'' (JBool False),
               ac_failure = get_or attrs ''acFailure'' (JBool False),
               low_battery = get_or attrs ''lowBattery'' (JBool False),
               server_comm_fail = get_or attrs ''serverCommFail'' (JBool False),
               cs_comm_fail = get_or attrs ''csCommFail'' (JBool False),
               low_battery_zones = get_or attrs ''lowBatteryZones'' (JBool False),
               tamper_zones = get_or attrs ''tamperZones'' (JBool False),
               alarm_zones = get_or attrs ''alarmZones'' (JBool False),
               trouble_zones = get_or attrs ''troubleZones'' (JBool False),
               fire_trouble = get_or attrs ''fireTrouble'' (JBool False),
               arming_protest = get_or attrs ''armingProtest'' (JBool False),
               features = get_or attrs ''featuresSelected'' (JObj []),
               raw = data\<rparr>
      | _ \<Rightarrow> Inl (Uncaught ''AttributeError''))"

section \<open>client.py: zone discovery\<close>

text \<open>
  \<open>str.isdigit()\<close> on code points below 256: the ASCII digits and the superscripts
  two, three and one. The empty string has no digit.
\<close>

definition digit_char :: "char \<Rightarrow> bool" where
  "digit_char ch =
     ((48 \<le> (of_char ch :: nat) \<and> (of_char ch :: nat) \<le> 57)
      \<or> (of_char ch :: nat) = 178 \<or> (of_char ch :: nat) = 179 \<or> (of_char ch :: nat) = 185)"

definition isdigit :: "string \<Rightarrow> bool" where
  "isdigit s = (s \<noteq> [] \<and> list_all digit_char s)"

text \<open>
  \<open>int(s)\<close> on a string that passed \<open>isdigit\<close>: the decimal value when every character is an
  ASCII digit; a superscript digit is no decimal digit, and more digits than
  \<open>sys.int_info.default_max_str_digits\<close> (4300) are refused: both raise ValueError, here
  \<open>None\<close>.
\<close>

definition decimal_char :: "char \<Rightarrow> bool" where
  "decimal_char ch = (48 \<le> (of_char ch :: nat) \<and> (of_char ch :: nat) \<le> 57)"

definition decimal_value :: "string \<Rightarrow> int" where
  "decimal_value s = foldl (\<lambda>acc ch. 10 * acc + (int (of_char ch) - 48)) 0 s"

definition py_int :: "string \<Rightarrow> int option" where
  "py_int s =
     (if list_all decimal_char s \<and> length s \<le> 4300 then Some (decimal_value s) else None)"

text \<open>\<open>for x in v\<close>: the items of a list, the characters of a string, the keys of a dict.\<close>

fun iterate :: "json \<Rightarrow> error + json list" where
  "iterate (JArr xs) = Inr xs"
| "iterate (JStr s) = Inr (map (\<lambda>ch. JStr [ch]) s)"
| "iterate (JObj d) = Inr (map (\<lambda>kv. JStr (fst kv)) d)"
| "iterate _ = Inl (Uncaught ''TypeError'')"

text \<open>
  The body of the loop of \<open>async_discover_zones\<close> up to \<open>zone_idx = int(zone_str)\<close>:
  \<open>Inr None\<close> is \<open>continue\<close>, \<open>Inr (Some (zone_idx, info))\<close> the decoded index with the entry
  that would be stored for it.
\<close>

definition zone_entry :: "json \<Rightarrow> error + (int \<times> dict) option" where
  "zone_entry entry =
     (case entry of
        JObj e \<Rightarrow>
          (case get_or e ''attributes'' (JObj []) of
             JObj attrs \<Rightarrow>
               (let zone_str = get_or attrs ''signalUserZone'' (JStr '''')
                in if \<not> truthy zone_str then Inr None
                   else case zone_str of
                          JStr s \<Rightarrow>
                            if \<not> isdigit s then Inr None
                            else (case py_int s of
                                    None \<Rightarrow> Inl (Uncaught ''ValueError'')
                                  | Some zone_idx \<Rightarrow>
                                      Inr (Some (zone_idx,
                                        [(''zone_name'', get_or attrs ''signalUserZoneAlias'' JNull),
                                         (''zone_type'', get_or attrs ''signalUserZoneType'' (JStr ''''))])))
                        | _ \<Rightarrow> Inl (Uncaught ''AttributeError''))
           | _ \<Rightarrow> Inl (Uncaught ''AttributeError''))
      | _ \<Rightarrow> Inl (Uncaught ''AttributeError''))"

text \<open>The loop: \<open>zones\<close> is the dict built so far, in insertion order.\<close>

fun scan_zones :: "json list \<Rightarrow> (int \<times> dict) list \<Rightarrow> error + (int \<times> dict) list" where
  "scan_zones [] zones = Inr zones"
| "scan_zones (entry # entries) zones =
     (case zone_entry entry of
        Inl err \<Rightarrow> Inl err
      | Inr None \<Rightarrow> scan_zones entries zones
      | Inr (Some (zone_idx, info)) \<Rightarrow>
          if zone_idx = 0 \<or> map_of zones zone_idx \<noteq> None then scan_zones entries zones
          else scan_zones entries (zones @ [(zone_idx, info)]))"

definition async_discover_zones ::
  "string \<Rightarrow> client \<Rightarrow> world \<Rightarrow> (error + (int \<times> dict) list) \<times> client \<times> world" where
  "async_discover_zones device_id c w =
     (case request ''GET'' (''/api/v1/devices/'' @ device_id @ ''/eventlog'') None
             (Some [(''customOptions[omitRelationships]'', ''true''), (''page[size]'', ''500''),
                    (''sort'', ''-dateEntered'')]) c w of
        (Inl e, c1, w1) \<Rightarrow> (Inl e, c1, w1)
      | (Inr result, c1, w1) \<Rightarrow>
          (case iterate (get_or result ''data'' (JArr [])) of
             Inl e \<Rightarrow> (Inl e, c1, w1)
           | Inr entries \<Rightarrow> (scan_zones entries [], c1, w1)))"

text \<open>An event log, newest first, whose zone fields are "3", "3", "0", "5" and "".\<close>

definition log_entry :: "string \<Rightarrow> string \<Rightarrow> string \<Rightarrow> json" where
  "log_entry zone alias kind =
     JObj [(''id'', JStr ''event''),
           (''attributes'', JObj [(''signalUserZone'', JStr zone), (''signalUserZoneAlias'', JStr alias),
                                  (''signalUserZoneType'', JStr kind)])]"

definition example_log :: "json list" where
  "example_log =
     [log_entry ''3'' ''Front Door'' ''door'', log_entry ''3'' ''Old Door'' ''window'',
      log_entry ''0'' ''Panel'' ''system'', log_entry ''5'' ''Hall Motion'' ''motion'',
      log_entry '''' ''Nobody'' ''none'']"

text \<open>What an entry offers to the scan: its decoded index and the stored entry, if any.\<close>

definition contribution :: "json \<Rightarrow> (int \<times> dict) option" where
  "contribution entry = (case zone_entry entry of Inr (Some p) \<Rightarrow> Some p | _ \<Rightarrow> None)"

section \<open>models.py: zones\<close>

text \<open>
  The dataclasses \<open>ZoneStatus\<close> and \<open>Zone\<close>. The field \<open>name\<close> of a status is
  \<open>status_name\<close> here, and the fields \<open>id\<close>, \<open>device_id\<close>, \<open>status\<close> and \<open>raw\<close> of a zone are
  \<open>zone_id\<close>, \<open>zone_device_id\<close>, \<open>zone_status\<close> and \<open>zone_raw\<close>.
\<close>

record ZoneStatus =
  status_name :: json
  is_active :: json

record Zone =
  zone_id :: json
  zone_device_id :: json
  zone_index :: json
  zone_status :: ZoneStatus
  push_enabled :: json
  zone_name :: json
  device_type_hint :: json
  zone_raw :: dict

text \<open>\<open>v.get(...)\<close> on a value: only a dict has \<open>get\<close>.\<close>

definition as_dict :: "json \<Rightarrow> error + dict" where
  "as_dict v = (case v of JObj d \<Rightarrow> Inr d | _ \<Rightarrow> Inl (Uncaught ''AttributeError''))"

definition startswith_brace :: "string \<Rightarrow> bool" where
  "startswith_brace s = (case s of [] \<Rightarrow> False | ch # _ \<Rightarrow> ch = CHR ''{'')"

text \<open>\<open>body_args[0]\<close> on a value that is true.\<close>

fun first_item :: "json \<Rightarrow> error + json" where
  "first_item (JArr (x # xs)) = Inr x"
| "first_item (JStr (ch # s)) = Inr (JStr [ch])"
| "first_item (JObj d) = Inl (Uncaught ''KeyError'')"
| "first_item (JArr []) = Inl (Uncaught ''IndexError'')"
| "first_item (JStr []) = Inl (Uncaught ''IndexError'')"
| "first_item _ = Inl (Uncaught ''TypeError'')"

definition ZoneStatus_from_api :: "json \<Rightarrow> error + ZoneStatus" where
  "ZoneStatus_from_api v =
     (case as_dict v of
        Inl e \<Rightarrow> Inl e
      | Inr data \<Rightarrow>
          Inr \<lparr>status_name = get_or data ''name'' (JStr ''unknown''),
               is_active = get_or data ''on'' (JBool False)\<rparr>)"

definition parse_zone_name :: "dict \<Rightarrow> error + json" where
  "parse_zone_name attrs =
     (let zone_name = py_or (get_or attrs ''zoneName'' JNull) (get_or attrs ''friendlyName'' JNull)
      in if truthy zone_name then Inr zone_name
         else case as_dict (get_or attrs ''pushOptions'' (JObj [])) of
                Inl e \<Rightarrow> Inl e
              | Inr push_opts \<Rightarrow>
                  (let body_args = get_or push_opts ''bodyArgs'' (JArr [])
                   in if \<not> truthy body_args then Inr zone_name
                      else case first_item body_args of
                             Inl e \<Rightarrow> Inl e
                           | Inr (JStr candidate) \<Rightarrow>
                               if \<not> startswith_brace candidate then Inr (JStr candidate)
                               else Inr zone_name
                           | Inr _ \<Rightarrow> Inl (Uncaught ''AttributeError'')))"

definition parse_device_type_hint :: "dict \<Rightarrow> error + json" where
  "parse_device_type_hint attrs =
     (let hint = py_or (get_or attrs ''zoneType'' JNull) (get_or attrs ''deviceType'' JNull);
          found =
            (if truthy hint then Inr hint
             else case as_dict (get_or attrs ''pushOptions'' (JObj [])) of
                    Inl e \<Rightarrow> Inl e
                  | Inr push_opts \<Rightarrow>
                      (case as_dict (get_or push_opts ''data'' (JObj [])) of
                         Inl e \<Rightarrow> Inl e
                       | Inr push_data \<Rightarrow> Inr (get_or push_data ''deviceType'' JNull)))
      in case found of
           Inl e \<Rightarrow> Inl e
         | Inr (JStr s) \<Rightarrow> if startswith_brace s then Inr JNull else Inr (JStr s)
         | Inr v \<Rightarrow> Inr v)"

text \<open>\<open>Zone.from_api(data, device_id)\<close>; the second argument is a \<open>str\<close> or \<open>None\<close>.\<close>

definition Zone_from_api :: "json \<Rightarrow> string option \<Rightarrow> error + Zone" where
  "Zone_from_api v fallback =
     (case as_dict v of
        Inl e \<Rightarrow> Inl e
      | Inr data \<Rightarrow>
     (case as_dict (get_or data ''attributes'' (JObj [])) of
        Inl e \<Rightarrow> Inl e
      | Inr attrs \<Rightarrow>
     (case parse_zone_name attrs of
        Inl e \<Rightarrow> Inl e
      | Inr zname \<Rightarrow>
     (case parse_device_type_hint attrs of
        Inl e \<Rightarrow> Inl e
      | Inr hint \<Rightarrow>
     (case ZoneStatus_from_api (get_or attrs ''zoneStatus'' (JObj [])) of
        Inl e \<Rightarrow> Inl e
      | Inr st \<Rightarrow>
          Inr \<lparr>zone_id = get_or data ''id'' (JStr ''''),
               zone_device_id = py_or (py_or (get_or attrs ''deviceId'' (JStr ''''))
                                        (case fallback of None \<Rightarrow> JNull | Some s \<Rightarrow> JStr s))
                                 (JStr ''''),
               zone_index = get_or attrs ''zoneIndex'' (JInt 0),
               zone_status = st,
               push_enabled = get_or attrs ''pushEnabled'' (JBool False),
               zone_name = zname,
               device_type_hint = hint,
               zone_raw = data\<rparr>)))))"

section \<open>client.py: zone subscriptions\<close>

text \<open>The list comprehension \<open>[Zone.from_api(z) for z in ...]\<close>: the first error ends it.\<close>

fun zones_from_api :: "json list \<Rightarrow> error + Zone list" where
  "zones_from_api [] = Inr []"
| "zones_from_api (z # zs) =
     (case Zone_from_api z None of
        Inl e \<Rightarrow> Inl e
      | Inr zone \<Rightarrow>
          (case zones_from_api zs of
             Inl e \<Rightarrow> Inl e
           | Inr zones \<Rightarrow> Inr (zone # zones)))"

text \<open>\<open>async_get_zones\<close>; \<open>str(DEFAULT_PAGE_SIZE)\<close> is "200".\<close>

definition async_get_zones :: "client \<Rightarrow> world \<Rightarrow> (error + Zone list) \<times> client \<times> world" where
  "async_get_zones c w =
     (case request ''GET'' ''/api/v1/events/notifications/zones'' None
             (Some [(''page[size]'', ''200''), (''sort'', ''id'')]) c w of
        (Inl e, c1, w1) \<Rightarrow> (Inl e, c1, w1)
      | (Inr result, c1, w1) \<Rightarrow>
          (case iterate (get_or result ''data'' (JArr [])) of
             Inl e \<Rightarrow> (Inl e, c1, w1)
           | Inr items \<Rightarrow> (zones_from_api items, c1, w1)))"

text \<open>
  The set of keys \<open>(z.device_id, z.zone_index, z.status.is_active)\<close>: a list or a dict in a
  key cannot be hashed (TypeError). Membership of \<open>(device_id, zone_idx, status_on)\<close> is
  Python's equality on each component.
\<close>

fun hashable :: "json \<Rightarrow> bool" where
  "hashable (JArr xs) = False"
| "hashable (JObj d) = False"
| "hashable _ = True"

fun existing_keys :: "Zone list \<Rightarrow> error + (json \<times> json \<times> json) list" where
  "existing_keys [] = Inr []"
| "existing_keys (z # zs) =
     (if hashable (zone_device_id z) \<and> hashable (zone_index z)
         \<and> hashable (is_active (zone_status z))
      then (case existing_keys zs of
              Inl e \<Rightarrow> Inl e
            | Inr keys \<Rightarrow> Inr ((zone_device_id z, zone_index z, is_active (zone_status z)) # keys))
      else Inl (Uncaught ''TypeError''))"

definition key_present :: "(json \<times> json \<times> json) list \<Rightarrow> string \<Rightarrow> int \<Rightarrow> bool \<Rightarrow> bool" where
  "key_present keys dev zone_idx status_on =
     list_ex (\<lambda>k. fst k = JStr dev \<and> py_eq_int (fst (snd k)) zone_idx
                  \<and> py_eq_int (snd (snd k)) (if status_on then 1 else 0)) keys"

text \<open>\<open>str(n)\<close> for an int, as interpolated by the f-strings of the payload.\<close>

fun str_nat :: "nat \<Rightarrow> string" where
  "str_nat n = (if n < 10 then [''0123456789'' ! n]
                else str_nat (n div 10) @ [''0123456789'' ! (n mod 10)])"

definition str_int :: "int \<Rightarrow> string" where
  "str_int i = (if i < 0 then ''-'' @ str_nat (nat (- i)) else str_nat (nat i))"

definition subscription_payload :: "string \<Rightarrow> int \<Rightarrow> bool \<Rightarrow> dict" where
  "subscription_payload dev zone_idx status_on =
     [(''data'', JObj
        [(''type'', JStr ''events-notifications-zones''),
         (''attributes'', JObj
            [(''deviceId'', JStr dev),
             (''zoneIndex'', JInt zone_idx),
             (''zoneStatus'', JObj [(''name'', JStr ''open''), (''on'', JBool status_on)]),
             (''zoneStatusName'', JStr ''open''),
             (''zoneStatusOn'', JBool status_on),
             (''pushEnabled'', JBool True),
             (''pushOptions'', JObj
                [(''titleKey'', JStr ''APP_NAME''),
                 (''bodyKey'', JStr (if status_on then ''OPEN_ACTIVE'' else ''OPEN_INACTIVE'')),
                 (''bodyArgs'', JArr [JStr (''{zoneConfiguration.'' @ str_int zone_idx @ ''.zoneName:}'')]),
                 (''data'', JObj
                    [(''deviceId'', JStr dev),
                     (''zoneIndex'', JInt zone_idx),
                     (''deviceType'',
                      JStr (''{zoneConfiguration.'' @ str_int zone_idx @ ''.deviceType}''))])])])])]"

text \<open>
  The \<open>try\<close> of the loop: one create through the pipeline; any exception is logged and
  dropped, a success counts.
\<close>

definition create_subscription ::
  "string \<Rightarrow> int \<times> bool \<Rightarrow> nat \<times> client \<times> world \<Rightarrow> nat \<times> client \<times> world" where
  "create_subscription dev p st =
     (case st of (created, c, w) \<Rightarrow>
        (case request ''POST'' ''/api/v1/events/notifications/zones''
                (Some (subscription_payload dev (fst p) (snd p))) None c w of
           (Inl err, c1, w1) \<Rightarrow> (created, c1, w1)
         | (Inr _, c1, w1) \<Rightarrow> (created + 1, c1, w1)))"

text \<open>The body of the inner loop, for one \<open>status_on\<close>.\<close>

definition subscribe ::
  "(json \<times> json \<times> json) list \<Rightarrow> string \<Rightarrow> int \<Rightarrow> bool \<Rightarrow> nat \<times> client \<times> world
     \<Rightarrow> nat \<times> client \<times> world" where
  "subscribe keys dev zone_idx status_on st =
     (if key_present keys dev zone_idx status_on then st
      else create_subscription dev (zone_idx, status_on) st)"

text \<open>The outer loop over \<open>zone_indices\<close>; the inner one runs \<open>True\<close>, then \<open>False\<close>.\<close>

fun subscribe_all ::
  "(json \<times> json \<times> json) list \<Rightarrow> string \<Rightarrow> int list \<Rightarrow> nat \<times> client \<times> world
     \<Rightarrow> nat \<times> client \<times> world" where
  "subscribe_all keys dev [] st = st"
| "subscribe_all keys dev (zone_idx # zone_indices) st =
     subscribe_all keys dev zone_indices
       (subscribe keys dev zone_idx False (subscribe keys dev zone_idx True st))"

definition async_ensure_zone_subscriptions ::
  "string \<Rightarrow> int list \<Rightarrow> client \<Rightarrow> world \<Rightarrow> (error + nat) \<times> client \<times> world" where
  "async_ensure_zone_subscriptions dev zone_indices c w =
     (case async_get_zones c w of
        (Inl e, c1, w1) \<Rightarrow> (Inl e, c1, w1)
      | (Inr existing, c1, w1) \<Rightarrow>
          (case existing_keys existing of
             Inl e \<Rightarrow> (Inl e, c1, w1)
           | Inr keys \<Rightarrow>
               (case subscribe_all keys dev zone_indices (0, c1, w1) of
                  (created, c2, w2) \<Rightarrow> (Inr created, c2, w2))))"

text \<open>
  For stating what the loop does: the keys that the fetched subscriptions lack, in the
  order of the loop, and the results of the creates attempted for a list of keys.
\<close>

definition missing :: "(json \<times> json \<times> json) list \<Rightarrow> string \<Rightarrow> int list \<Rightarrow> (int \<times> bool) list" where
  "missing keys dev zone_indices =
     filter (\<lambda>p. \<not> key_present keys dev (fst p) (snd p))
       (concat (map (\<lambda>zone_idx. [(zone_idx, True), (zone_idx, False)]) zone_indices))"

fun attempts :: "string \<Rightarrow> (int \<times> bool) list \<Rightarrow> client \<Rightarrow> world \<Rightarrow> (error + dict) list \<times> client \<times> world" where
  "attempts dev [] c w = ([], c, w)"
| "attempts dev (p # ps) c w =
     (case request ''POST'' ''/api/v1/events/notifications/zones''
             (Some (subscription_payload dev (fst p) (snd p))) None c w of
        (r, c1, w1) \<Rightarrow>
          (case attempts dev ps c1 w1 of (rs, c2, w2) \<Rightarrow> (r # rs, c2, w2)))"

section \<open>Example clients and servers\<close>

text \<open>A client holding a token that it believes valid at time 1000, as after \<open>restore_tokens\<close>.\<close>

definition restored_client :: client where
  "restored_client =
     \<lparr>client_id = ''id'', client_secret = ''secret'', base_url = ''https://api'',
      access_token = JStr ''old'', refresh_token = JStr ''refresh'', token_expiry = 1300,
      user_id = JNull\<rparr>"

text \<open>A server that answers 401, then rejects the refresh with 400.\<close>

definition refresh_rejected :: world where
  "refresh_rejected =
     \<lparr>net = (\<lambda>i. if i = 0 then Response 401 (Json [])
                 else Response 400 (Json [(''error_description'', JStr ''invalid_grant'')])),
      clock = (\<lambda>_. 1000), uuid4 = (\<lambda>_. ''UUID''), sent = []\<rparr>"

text \<open>A server that answers 401, then grants the refresh, then answers 200.\<close>

definition retry_accepted :: world where
  "retry_accepted =
     \<lparr>net = (\<lambda>i. if i = 0 then Response 401 (Json [])
                 else if i = 1 then
                   Response 200 (Json [(''access_token'', JStr ''new''),
                                       (''refresh_token'', JStr ''refresh2''),
                                       (''expires_in'', JInt 900)])
                 else Response 200 (Json [(''data'', JArr [])])),
      clock = (\<lambda>_. 1000), uuid4 = (\<lambda>_. ''UUID''), sent = []\<rparr>"

text \<open>A server that answers 401 to every call of the API and grants every refresh.\<close>

definition always_401 :: world where
  "always_401 =
     \<lparr>net = (\<lambda>i. if i = 1 then
                   Response 200 (Json [(''access_token'', JStr ''new''),
                                       (''refresh_token'', JStr ''refresh2'')])
                 else Response 401 (Json [])),
      clock = (\<lambda>_. 1000), uuid4 = (\<lambda>_. ''UUID''), sent = []\<rparr>"

text \<open>A server that answers every call with status 500.\<close>

definition always_500 :: world where
  "always_500 =
     \<lparr>net = (\<lambda>_. Response 500 (Json [(''message'', JStr ''boom'')])),
      clock = (\<lambda>_. 1000), uuid4 = (\<lambda>_. ''UUID''), sent = []\<rparr>"

text \<open>A server whose panel has interactive services off: every RPC is answered with code 6.\<close>

definition permission_denied :: world where
  "permission_denied =
     \<lparr>net = (\<lambda>_. Response 200
                   (Json [(''error'', JObj [(''code'', JInt 6), (''message'', JStr ''Permission Denied'')])])),
      clock = (\<lambda>_. 1000), uuid4 = (\<lambda>_. ''UUID''), sent = []\<rparr>"

text \<open>
  A server with no subscriptions that accepts every create, and one whose feed already
  holds both subscriptions of zone 3 of device \<open>dev\<close>.
\<close>

definition empty_feed :: world where
  "empty_feed =
     \<lparr>net = (\<lambda>i. if i = 0 then Response 200 (Json [(''data'', JArr [])])
                 else Response 201 (Json [(''data'', JObj [(''id'', JStr ''sub'')])])),
      clock = (\<lambda>_. 1000), uuid4 = (\<lambda>_. ''UUID''), sent = []\<rparr>"

definition subscription :: "string \<Rightarrow> int \<Rightarrow> bool \<Rightarrow> json" where
  "subscription dev zone_idx status_on =
     JObj [(''id'', JStr ''sub''),
           (''attributes'', JObj [(''deviceId'', JStr dev), (''zoneIndex'', JInt zone_idx),
                                  (''zoneStatus'', JObj [(''name'', JStr ''open''), (''on'', JBool status_on)])])]"

definition full_feed :: world where
  "full_feed =
     \<lparr>net = (\<lambda>i. if i = 0
                 then Response 200 (Json [(''data'', JArr [subscription ''dev'' 3 True,
                                                            subscription ''dev'' 3 False])])
                 else Response 403 (Json [])),
      clock = (\<lambda>_. 1000), uuid4 = (\<lambda>_. ''UUID''), sent = []\<rparr>"

text \<open>A server that answers every RPC with a result and a null \<open>error\<close> member.\<close>

definition error_null :: world where
  "error_null =
     \<lparr>net = (\<lambda>_. Response 200 (Json [(''result'', JObj []), (''error'', JNull)])),
      clock = (\<lambda>_. 1000), uuid4 = (\<lambda>_. ''UUID''), sent = []\<rparr>"

text \<open>A server whose event log holds zone "5" and then a zone field that is a superscript two.\<close>

definition superscript_log :: world where
  "superscript_log =
     \<lparr>net = (\<lambda>_. Response 200
                   (Json [(''data'', JArr [log_entry ''5'' ''Hall Motion'' ''motion'',
                                           log_entry [CHR 0xB2] ''Side Door'' ''door''])])),
      clock = (\<lambda>_. 1000), uuid4 = (\<lambda>_. ''UUID''), sent = []\<rparr>"

text \<open>
  A server whose feed holds the "on" subscription of zone 3 of device \<open>dev\<close>, the "off"
  subscription of zone 3 of another device and the "off" subscription of zone 4 of \<open>dev\<close>, and
  that accepts every create; and a server with an empty feed that rejects every create.
\<close>

definition mixed_feed :: world where
  "mixed_feed =
     \<lparr>net = (\<lambda>i. if i = 0
                 then Response 200 (Json [(''data'', JArr [subscription ''dev'' 3 True,
                                                            subscription ''other'' 3 False,
                                                            subscription ''dev'' 4 False])])
                 else Response 201 (Json [(''data'', JObj [(''id'', JStr ''sub'')])])),
      clock = (\<lambda>_. 1000), uuid4 = (\<lambda>_. ''UUID''), sent = []\<rparr>"

definition rejecting_feed :: world where
  "rejecting_feed =
     \<lparr>net = (\<lambda>i. if i = 0 then Response 200 (Json [(''data'', JArr [])])
                 else Response 403 (Json [])),
      clock = (\<lambda>_. 1000), uuid4 = (\<lambda>_. ''UUID''), sent = []\<rparr>"

section \<open>Token state: properties\<close>

text \<open>
  C5: the client reports authenticated exactly when an access token is present and the
  clock reads less than the recorded expiry minus the buffer of 180 seconds. A freshly
  constructed client is not authenticated and holds neither token, and a client whose
  token expires within the buffer window is not authenticated.
\<close>

theorem is_authenticated_iff:
  "(is_authenticated c w \<longleftrightarrow> access_token c \<noteq> JNull \<and> now w < token_expiry c - 180)
   \<and> \<not> is_authenticated (init cid secret base) w
   \<and> access_token (init cid secret base) = JNull
   \<and> refresh_token (init cid secret base) = JNull
   \<and> (token_expiry c - now w \<le> 180 \<longrightarrow> \<not> is_authenticated c w)"
  by (auto simp: is_authenticated_def init_def TOKEN_REFRESH_BUFFER_def)

theorem is_authenticated_iff_witness:
  "(is_authenticated (init ''id'' ''secret'' ''https://api'') \<lparr>net = (\<lambda>_. ClientError ''down''), clock = (\<lambda>_. 1000), uuid4 = (\<lambda>_. ''u''), sent = []\<rparr>
      \<longleftrightarrow> access_token (init ''id'' ''secret'' ''https://api'') \<noteq> JNull
          \<and> now \<lparr>net = (\<lambda>_. ClientError ''down''), clock = (\<lambda>_. 1000), uuid4 = (\<lambda>_. ''u''), sent = []\<rparr>
               < token_expiry (init ''id'' ''secret'' ''https://api'') - 180)
   \<and> token_expiry (init ''id'' ''secret'' ''https://api'')
        - now \<lparr>net = (\<lambda>_. ClientError ''down''), clock = (\<lambda>_. 1000), uuid4 = (\<lambda>_. ''u''), sent = []\<rparr> \<le> 180
   \<and> \<not> is_authenticated (init ''id'' ''secret'' ''https://api'') \<lparr>net = (\<lambda>_. ClientError ''down''), clock = (\<lambda>_. 1000), uuid4 = (\<lambda>_. ''u''), sent = []\<rparr>"
  using is_authenticated_iff [of "init ''id'' ''secret'' ''https://api''"
      "\<lparr>net = (\<lambda>_. ClientError ''down''), clock = (\<lambda>_. 1000), uuid4 = (\<lambda>_. ''u''), sent = []\<rparr>"]
  by (simp add: init_def now_def)

text \<open>
  C6: after \<open>restore_tokens(access, refresh, expires_in)\<close> the stored tokens are the
  supplied ones and the stored expiry is at most 300 seconds after the clock's reading,
  however large \<open>expires_in\<close> is (for 9999 it is exactly 300 seconds ahead); the world is left
  as it was, so no call is sent.
\<close>

theorem restore_tokens_clamped:
  "access_token (fst (restore_tokens a r e c w)) = JStr a
   \<and> refresh_token (fst (restore_tokens a r e c w)) = JStr r
   \<and> token_expiry (fst (restore_tokens a r e c w)) \<le> now w + 300
   \<and> token_expiry (fst (restore_tokens a r 9999 c w)) = now w + 300
   \<and> snd (restore_tokens a r e c w) = w"
  by (simp add: restore_tokens_def)

text \<open>
  C7: \<open>async_refresh\<close> called without a refresh token, on a client that stores none, fails
  with the AuthError "No refresh token available"; the client and the world are unchanged,
  so no call is sent.
\<close>

theorem async_refresh_no_token:
  "refresh_token c = JNull \<Longrightarrow>
     async_refresh None c w = (Inl (AlulaAuthError [Lit ''No refresh token available'']), c, w)"
  by (simp add: async_refresh_def py_or_def)

theorem async_refresh_no_token_witness:
  "refresh_token (init ''id'' ''secret'' ''https://api'') = JNull
   \<and> async_refresh None (init ''id'' ''secret'' ''https://api'')
        \<lparr>net = (\<lambda>_. ClientError ''down''), clock = (\<lambda>_. 1000), uuid4 = (\<lambda>_. ''u''), sent = []\<rparr>
      = (Inl (AlulaAuthError [Lit ''No refresh token available'']),
         init ''id'' ''secret'' ''https://api'',
         \<lparr>net = (\<lambda>_. ClientError ''down''), clock = (\<lambda>_. 1000), uuid4 = (\<lambda>_. ''u''), sent = []\<rparr>)"
  using async_refresh_no_token [of "init ''id'' ''secret'' ''https://api''"
      "\<lparr>net = (\<lambda>_. ClientError ''down''), clock = (\<lambda>_. 1000), uuid4 = (\<lambda>_. ''u''), sent = []\<rparr>"]
  by (simp add: init_def)

section \<open>The request pipeline: properties\<close>

text \<open>A token request sends exactly one call and changes only the token fields.\<close>

lemma store_tokens_world: "store_tokens body c w = (r, c', w') \<Longrightarrow> w' = w"
  by (auto simp: store_tokens_def Let_def split: option.splits)

lemma store_tokens_client:
  "store_tokens body c w = (Inr ti, c', w') \<Longrightarrow>
     c' = c\<lparr>access_token := access_token c', refresh_token := refresh_token c',
            token_expiry := token_expiry c'\<rparr>
     \<and> (\<exists>e t s. ti = TokenInfo (access_token c') (refresh_token c') e t s)"
  by (auto simp: store_tokens_def Let_def split: option.splits)

lemma token_request_sent:
  "token_request kw c w = (r, c', w') \<Longrightarrow>
     w' = w\<lparr>sent := sent w @ [FormPost (oauth_url c)
            ([(''client_id'', JStr (client_id c)), (''client_secret'', JStr (client_secret c))] @ kw)
            auth_headers]\<rparr>"
  by (auto simp: token_request_def http_def Let_def dest: store_tokens_world
      split: exchange.splits decoded.splits if_splits)

lemma token_request_client:
  "token_request kw c w = (Inr ti, c', w') \<Longrightarrow>
     c' = c\<lparr>access_token := access_token c', refresh_token := refresh_token c',
            token_expiry := token_expiry c'\<rparr>
     \<and> (\<exists>e t s. ti = TokenInfo (access_token c') (refresh_token c') e t s)"
  by (auto simp: token_request_def http_def Let_def dest: store_tokens_client
      split: exchange.splits decoded.splits if_splits)

lemma async_refresh_sent:
  "async_refresh None c w = (r, c', w') \<Longrightarrow>
     w' = w \<or> w' = w\<lparr>sent := sent w @ [FormPost (oauth_url c)
            [(''client_id'', JStr (client_id c)), (''client_secret'', JStr (client_secret c)),
             (''grant_type'', JStr ''refresh_token''), (''refresh_token'', refresh_token c)]
            auth_headers]\<rparr>"
  by (auto simp: async_refresh_def py_or_def Let_def dest: token_request_sent split: if_splits)

lemma async_refresh_ok:
  "async_refresh None c w = (Inr ti, c', w') \<Longrightarrow>
     w' = w\<lparr>sent := sent w @ [FormPost (oauth_url c)
            [(''client_id'', JStr (client_id c)), (''client_secret'', JStr (client_secret c)),
             (''grant_type'', JStr ''refresh_token''), (''refresh_token'', refresh_token c)]
            auth_headers]\<rparr>
     \<and> c' = c\<lparr>access_token := access_token c', refresh_token := refresh_token c',
            token_expiry := token_expiry c'\<rparr>
     \<and> (\<exists>e t s. ti = TokenInfo (access_token c') (refresh_token c') e t s)"
  using token_request_sent token_request_client
  by (fastforce simp: async_refresh_def py_or_def Let_def split: if_splits)

text \<open>
  C1 (as amended): when the first attempt of a request returns 401, the pipeline calls
  \<open>async_refresh\<close> once. If the refresh fails, its error is raised and the request is not sent
  again. If it succeeds, exactly one token call has been sent after the first attempt, the
  client differs from the one before only in the token fields set by that refresh, and the
  same request is sent once more with the new token: a retry answered 401 gives the
  AuthError "Authentication failed after refresh", a retry answered 2xx with a decodable
  body gives that body, and no further call is sent in either case.
\<close>

theorem request_401_refresh_retry:
  assumes pre: "ensure_token c w = (Inr (), c1, w1)"
    and first: "net w1 (length (sent w1)) = Response 401 d"
    and refr: "async_refresh None c1
                 (w1\<lparr>sent := sent w1 @ [ApiRequest m (base_url c1 @ p)
                         (request_headers (access_token c1) j) j ps]\<rparr>) = (res, c3, w3)"
  shows "(\<forall>e. res = Inl e \<longrightarrow>
            request m p j ps c w = (Inl e, c3, w3)
            \<and> length (filter (\<lambda>r. case r of ApiRequest _ _ _ _ _ \<Rightarrow> True | _ \<Rightarrow> False) (sent w3))
                = Suc (length (filter (\<lambda>r. case r of ApiRequest _ _ _ _ _ \<Rightarrow> True | _ \<Rightarrow> False) (sent w1))))
       \<and> (\<forall>ti. res = Inr ti \<longrightarrow>
            sent w3 = sent w1 @
               [ApiRequest m (base_url c1 @ p) (request_headers (access_token c1) j) j ps,
                FormPost (oauth_url c1)
                  [(''client_id'', JStr (client_id c1)), (''client_secret'', JStr (client_secret c1)),
                   (''grant_type'', JStr ''refresh_token''), (''refresh_token'', refresh_token c1)]
                  auth_headers]
            \<and> c3 = c1\<lparr>access_token := access_token c3, refresh_token := refresh_token c3,
                      token_expiry := token_expiry c3\<rparr>
            \<and> (\<exists>e t s. ti = TokenInfo (access_token c3) (refresh_token c3) e t s)
            \<and> (\<forall>status' d'. net w1 (length (sent w1) + 2) = Response status' d' \<longrightarrow>
                  request m p j ps c w =
                    (if status' = 401 then Inl (AlulaAuthError [Lit ''Authentication failed after refresh''])
                     else if 200 \<le> status' \<and> status' < 300 \<and> (\<exists>b. d' = Json b)
                          then Inr (case d' of Json b \<Rightarrow> b)
                     else read_body m p status' d',
                     c3,
                     w3\<lparr>sent := sent w3 @ [ApiRequest m (base_url c1 @ p)
                                             (request_headers (access_token c3) j) j ps]\<rparr>)))"
proof (intro conjI allI impI)
  fix e assume e: "res = Inl e"
  show "request m p j ps c w = (Inl e, c3, w3)"
    using pre first refr e by (simp add: request_def http_def)
  from async_refresh_sent[OF refr]
  show "length (filter (\<lambda>r. case r of ApiRequest _ _ _ _ _ \<Rightarrow> True | _ \<Rightarrow> False) (sent w3))
                = Suc (length (filter (\<lambda>r. case r of ApiRequest _ _ _ _ _ \<Rightarrow> True | _ \<Rightarrow> False) (sent w1)))"
    by auto
next
  fix ti assume ti: "res = Inr ti"
  note ok = async_refresh_ok[OF refr[unfolded ti]]
  from ok show "sent w3 = sent w1 @
               [ApiRequest m (base_url c1 @ p) (request_headers (access_token c1) j) j ps,
                FormPost (oauth_url c1)
                  [(''client_id'', JStr (client_id c1)), (''client_secret'', JStr (client_secret c1)),
                   (''grant_type'', JStr ''refresh_token''), (''refresh_token'', refresh_token c1)]
                  auth_headers]" by simp
  from ok show "c3 = c1\<lparr>access_token := access_token c3, refresh_token := refresh_token c3,
                      token_expiry := token_expiry c3\<rparr>" by blast
  from ok show "\<exists>e t s. ti = TokenInfo (access_token c3) (refresh_token c3) e t s" by blast
  fix status' d' assume retry: "net w1 (length (sent w1) + 2) = Response status' d'"
  from ok have w3: "net w3 = net w1" "length (sent w3) = length (sent w1) + 2" by auto
  show "request m p j ps c w =
                    (if status' = 401 then Inl (AlulaAuthError [Lit ''Authentication failed after refresh''])
                     else if 200 \<le> status' \<and> status' < 300 \<and> (\<exists>b. d' = Json b)
                          then Inr (case d' of Json b \<Rightarrow> b)
                     else read_body m p status' d',
                     c3,
                     w3\<lparr>sent := sent w3 @ [ApiRequest m (base_url c1 @ p)
                                             (request_headers (access_token c3) j) j ps]\<rparr>)"
    using pre first refr ti retry w3
    by (auto simp: request_def http_def read_body_def)
qed

text \<open>
  Without the condition on the refresh the property fails: when the token endpoint rejects
  the refresh, the request is not retried and the error is the one of the token endpoint.
\<close>

theorem request_401_counterexample:
  "net refresh_rejected (length (sent refresh_rejected)) = Response 401 (Json [])
   \<and> request ''GET'' ''/api/v1/self'' None None restored_client refresh_rejected
     = (Inl (AlulaAuthError [Shown (JStr ''invalid_grant'')]),
        restored_client,
        refresh_rejected\<lparr>sent :=
          [ApiRequest ''GET'' ''https://api/api/v1/self'' (request_headers (JStr ''old'') None) None None,
           FormPost ''https://api/oauth/token''
             [(''client_id'', JStr ''id''), (''client_secret'', JStr ''secret''),
              (''grant_type'', JStr ''refresh_token''), (''refresh_token'', JStr ''refresh'')]
             auth_headers]\<rparr>)"
  by (simp add: request_def ensure_token_def is_authenticated_def now_def http_def
      async_refresh_def py_or_def token_request_def get_or_def oauth_url_def
      restored_client_def refresh_rejected_def TOKEN_REFRESH_BUFFER_def Let_def)

theorem request_401_refresh_retry_witness:
  "ensure_token restored_client retry_accepted = (Inr (), restored_client, retry_accepted)
   \<and> net retry_accepted (length (sent retry_accepted)) = Response 401 (Json [])
   \<and> request ''GET'' ''/api/v1/self'' None None restored_client retry_accepted
     = (Inr [(''data'', JArr [])],
        restored_client\<lparr>access_token := JStr ''new'', refresh_token := JStr ''refresh2'',
                         token_expiry := 1900\<rparr>,
        retry_accepted\<lparr>sent :=
          [ApiRequest ''GET'' ''https://api/api/v1/self'' (request_headers (JStr ''old'') None) None None,
           FormPost ''https://api/oauth/token''
             [(''client_id'', JStr ''id''), (''client_secret'', JStr ''secret''),
              (''grant_type'', JStr ''refresh_token''), (''refresh_token'', JStr ''refresh'')]
             auth_headers,
           ApiRequest ''GET'' ''https://api/api/v1/self'' (request_headers (JStr ''new'') None) None None]\<rparr>)"
proof -
  have pre: "ensure_token restored_client retry_accepted = (Inr (), restored_client, retry_accepted)"
    by (simp add: ensure_token_def is_authenticated_def now_def restored_client_def
        retry_accepted_def TOKEN_REFRESH_BUFFER_def)
  have first: "net retry_accepted (length (sent retry_accepted)) = Response 401 (Json [])"
    by (simp add: retry_accepted_def)
  have refr: "async_refresh None restored_client
       (retry_accepted\<lparr>sent := sent retry_accepted @
          [ApiRequest ''GET'' (base_url restored_client @ ''/api/v1/self'')
             (request_headers (access_token restored_client) None) None None]\<rparr>)
     = (Inr (TokenInfo (JStr ''new'') (JStr ''refresh2'') (JInt 900) (JStr ''bearer'') (JStr '''')),
        restored_client\<lparr>access_token := JStr ''new'', refresh_token := JStr ''refresh2'',
                         token_expiry := 1900\<rparr>,
        retry_accepted\<lparr>sent :=
          [ApiRequest ''GET'' ''https://api/api/v1/self'' (request_headers (JStr ''old'') None) None None,
           FormPost ''https://api/oauth/token''
             [(''client_id'', JStr ''id''), (''client_secret'', JStr ''secret''),
              (''grant_type'', JStr ''refresh_token''), (''refresh_token'', JStr ''refresh'')]
             auth_headers]\<rparr>)"
    by (simp add: async_refresh_def py_or_def token_request_def store_tokens_def get_or_def
        http_def now_def oauth_url_def restored_client_def retry_accepted_def
        TOKEN_EXPIRES_IN_DEFAULT_def Let_def)
  have retry: "net retry_accepted (length (sent retry_accepted) + 2) = Response 200 (Json [(''data'', JArr [])])"
    by (simp add: retry_accepted_def)
  from request_401_refresh_retry [OF pre first refr] retry
  have "request ''GET'' ''/api/v1/self'' None None restored_client retry_accepted
     = (Inr [(''data'', JArr [])],
        restored_client\<lparr>access_token := JStr ''new'', refresh_token := JStr ''refresh2'',
                         token_expiry := 1900\<rparr>,
        retry_accepted\<lparr>sent :=
          [ApiRequest ''GET'' ''https://api/api/v1/self'' (request_headers (JStr ''old'') None) None None,
           FormPost ''https://api/oauth/token''
             [(''client_id'', JStr ''id''), (''client_secret'', JStr ''secret''),
              (''grant_type'', JStr ''refresh_token''), (''refresh_token'', JStr ''refresh'')]
             auth_headers,
           ApiRequest ''GET'' ''https://api/api/v1/self'' (request_headers (JStr ''new'') None) None None]\<rparr>)"
    by (simp add: restored_client_def)
  with pre first show ?thesis by simp
qed

text \<open>
  C2: a response with status 500 is not reported as an \<open>AlulaApiError\<close>: the
  \<open>ClientResponseError\<close> of \<open>raise_for_status()\<close> is caught by the handler for
  \<open>aiohttp.ClientError\<close> and leaves the pipeline as an \<open>AlulaConnectionError\<close>.
\<close>

theorem request_500_connection_error:
  "request ''GET'' ''/api/v1/devices'' None None restored_client always_500
     = (Inl (AlulaConnectionError
               [Lit ''Connection error: '', Lit ''GET'', Lit '' '', Lit ''/api/v1/devices'',
                Lit '': '', ResponseError 500]),
        restored_client,
        always_500\<lparr>sent :=
          [ApiRequest ''GET'' ''https://api/api/v1/devices'' (request_headers (JStr ''old'') None)
             None None]\<rparr>)"
  by (simp add: request_def ensure_token_def is_authenticated_def now_def http_def
      read_body_def connection_error_def restored_client_def always_500_def
      TOKEN_REFRESH_BUFFER_def Let_def)

text \<open>The same for every status from 400 on other than 401, and a status below 400 returns the body.\<close>

lemma request_error_status:
  assumes "ensure_token c w = (Inr (), c1, w1)"
    and "net w1 (length (sent w1)) = Response status d"
    and "status \<noteq> 401"
  shows "fst (request m p j ps c w) =
           (if 400 \<le> status then Inl (connection_error m p (ResponseError status))
            else case d of
                   Json body \<Rightarrow> Inr body
                 | ContentTypeError e \<Rightarrow> Inl (connection_error m p (Lit e))
                 | JSONDecodeError \<Rightarrow> Inl (Uncaught ''JSONDecodeError''))"
  using assms by (simp add: request_def http_def read_body_def)

section \<open>JSON-RPC: properties\<close>

lemma py_eq_int_6: "py_eq_int v 6 \<longleftrightarrow> v = JInt 6"
  by (cases v) auto

text \<open>
  C8 (as amended): when the decoded body of an RPC response carries an \<open>error\<close> member that is
  an object, \<open>_rpc\<close> fails with an \<open>AlulaApiError\<close> whose status code is the \<open>code\<close> field of
  that object (\<open>None\<close> when it has none). For \<open>helix.command\<close>, an error of code 6 surfaces as
  an \<open>AlulaApiError\<close> of code 6 whose message says that \<open>interactiveEnabled\<close> is off on the
  device and that the alarm provider must enable interactive services; an error of any
  other code surfaces unchanged.
\<close>

theorem rpc_error_code:
  assumes "request ''POST'' path (Some (rpc_payload rpc_method params w)) None c w = (Inr result, c1, w1)"
    and "map_of result ''error'' = Some (JObj e)"
  shows "rpc rpc_method params path c w =
           (Inl (AlulaApiError [Lit ''RPC error ('', Lit rpc_method, Lit ''): '', Shown (JObj e)]
                   (get_or e ''code'' JNull)), c1, w1)
         \<and> (path = ''/rpc/v1'' \<and> rpc_method = ''helix.command''
              \<and> params = Some [(''deviceId'', JStr device_id), (''data'', JStr dat)] \<longrightarrow>
             helix_command device_id dat c w =
               (if get_or e ''code'' JNull = JInt 6
                then Inl (AlulaApiError
                       [Lit ''Arm/disarm command denied: interactiveEnabled is off on device '',
                        Lit device_id,
                        Lit ''. Contact your alarm provider (e.g., Cove support) and ask them to enable interactive services on your device.'']
                       (JInt 6))
                else Inl (AlulaApiError [Lit ''RPC error ('', Lit rpc_method, Lit ''): '', Shown (JObj e)]
                            (get_or e ''code'' JNull)),
                c1, w1))"
  using assms by (auto simp: rpc_def helix_command_def py_eq_int_6 interactive_off_def)

theorem rpc_error_code_witness:
  "request ''POST'' ''/rpc/v1''
      (Some (rpc_payload ''helix.command'' (Some [(''deviceId'', JStr ''dev''), (''data'', JStr ''armStay'')])
               permission_denied)) None restored_client permission_denied
     = (Inr [(''error'', JObj [(''code'', JInt 6), (''message'', JStr ''Permission Denied'')])],
        restored_client,
        permission_denied\<lparr>sent :=
          [ApiRequest ''POST'' ''https://api/rpc/v1''
             (request_headers (JStr ''old'')
                (Some [(''id'', JStr ''UUID''), (''method'', JStr ''helix.command''),
                       (''params'', JObj [(''deviceId'', JStr ''dev''), (''data'', JStr ''armStay'')])]))
             (Some [(''id'', JStr ''UUID''), (''method'', JStr ''helix.command''),
                    (''params'', JObj [(''deviceId'', JStr ''dev''), (''data'', JStr ''armStay'')])])
             None]\<rparr>)
   \<and> async_arm_stay ''dev'' restored_client permission_denied
     = (Inl (AlulaApiError
               [Lit ''Arm/disarm command denied: interactiveEnabled is off on device '',
                Lit ''dev'',
                Lit ''. Contact your alarm provider (e.g., Cove support) and ask them to enable interactive services on your device.'']
               (JInt 6)),
        restored_client,
        permission_denied\<lparr>sent :=
          [ApiRequest ''POST'' ''https://api/rpc/v1''
             (request_headers (JStr ''old'')
                (Some [(''id'', JStr ''UUID''), (''method'', JStr ''helix.command''),
                       (''params'', JObj [(''deviceId'', JStr ''dev''), (''data'', JStr ''armStay'')])]))
             (Some [(''id'', JStr ''UUID''), (''method'', JStr ''helix.command''),
                    (''params'', JObj [(''deviceId'', JStr ''dev''), (''data'', JStr ''armStay'')])])
             None]\<rparr>)"
proof -
  have req: "request ''POST'' ''/rpc/v1''
      (Some (rpc_payload ''helix.command'' (Some [(''deviceId'', JStr ''dev''), (''data'', JStr ''armStay'')])
               permission_denied)) None restored_client permission_denied
     = (Inr [(''error'', JObj [(''code'', JInt 6), (''message'', JStr ''Permission Denied'')])],
        restored_client,
        permission_denied\<lparr>sent :=
          [ApiRequest ''POST'' ''https://api/rpc/v1''
             (request_headers (JStr ''old'')
                (Some [(''id'', JStr ''UUID''), (''method'', JStr ''helix.command''),
                       (''params'', JObj [(''deviceId'', JStr ''dev''), (''data'', JStr ''armStay'')])]))
             (Some [(''id'', JStr ''UUID''), (''method'', JStr ''helix.command''),
                    (''params'', JObj [(''deviceId'', JStr ''dev''), (''data'', JStr ''armStay'')])])
             None]\<rparr>)"
    by (simp add: request_def ensure_token_def is_authenticated_def now_def http_def
        read_body_def rpc_payload_def py_or_def restored_client_def permission_denied_def
        TOKEN_REFRESH_BUFFER_def Let_def)
  have err: "map_of [(''error'', JObj [(''code'', JInt 6), (''message'', JStr ''Permission Denied'')])] ''error''
      = Some (JObj [(''code'', JInt 6), (''message'', JStr ''Permission Denied'')])"
    by simp
  from rpc_error_code [OF req err, of "''dev''" "''armStay''"] req
  show ?thesis
    by (simp add: async_arm_stay_def get_or_def)
qed

text \<open>
  Without the condition on the \<open>error\<close> member the property fails: a body whose \<open>error\<close> is
  null has an error member, and \<open>err.get("code")\<close> raises an AttributeError, which is no
  \<open>AlulaApiError\<close>.
\<close>

theorem rpc_error_null_counterexample:
  "fst (request ''POST'' ''/rpc/v1''
          (Some (rpc_payload ''helix.command''
                   (Some [(''deviceId'', JStr ''dev''), (''data'', JStr ''armStay'')]) error_null))
          None restored_client error_null)
     = Inr [(''result'', JObj []), (''error'', JNull)]
   \<and> map_of [(''result'', JObj []), (''error'', JNull)] ''error'' = Some JNull
   \<and> fst (rpc ''helix.command'' (Some [(''deviceId'', JStr ''dev''), (''data'', JStr ''armStay'')])
             ''/rpc/v1'' restored_client error_null)
     = Inl (Uncaught ''AttributeError'')
   \<and> fst (async_arm_stay ''dev'' restored_client error_null) = Inl (Uncaught ''AttributeError'')"
  by (simp add: async_arm_stay_def helix_command_def rpc_def request_def ensure_token_def
      is_authenticated_def now_def http_def read_body_def rpc_payload_def py_or_def
      restored_client_def error_null_def TOKEN_REFRESH_BUFFER_def Let_def)

section \<open>Devices: properties\<close>

lemma ArmingState_call_unrecognized:
  "v \<notin> {JStr ''disarm'', JStr ''armstay'', JStr ''armaway'', JStr ''armnight''} \<Longrightarrow>
     (case ArmingState_call v of Some st \<Rightarrow> st | None \<Rightarrow> ArmingState.UNKNOWN) = ArmingState.UNKNOWN"
  by (cases v) auto

text \<open>
  C9: \<open>Device.from_api\<close> on a record with an attributes object returns a device. When the
  attributes carry \<open>isPanel = true\<close> and \<open>armingLevel = "armstay"\<close> the device is a panel
  (\<open>is_panel\<close>) and \<open>is_armed\<close> holds; when \<open>armingLevel\<close> is any value other than the four
  recognised levels, the arming state is \<open>UNKNOWN\<close>.
\<close>

theorem Device_from_api_panel_armed:
  assumes "map_of data ''attributes'' = Some (JObj attrs)"
  shows "\<exists>dev. Device_from_api data = Inr dev
           \<and> (map_of attrs ''isPanel'' = Some (JBool True)
                \<and> map_of attrs ''armingLevel'' = Some (JStr ''armstay'')
                \<longrightarrow> device_type dev = PANEL \<and> is_panel dev \<and> arming_state dev = ARMED_STAY \<and> is_armed dev)
           \<and> (\<forall>v. map_of attrs ''armingLevel'' = Some v
                \<and> v \<notin> {JStr ''disarm'', JStr ''armstay'', JStr ''armaway'', JStr ''armnight''}
                \<longrightarrow> arming_state dev = ArmingState.UNKNOWN)"
  using assms ArmingState_call_unrecognized
  by (auto simp: Device_from_api_def get_or_def parse_device_type_def parse_arming_state_def
      is_panel_def is_armed_def Let_def)

theorem Device_from_api_panel_armed_witness:
  "(\<exists>dev. Device_from_api [(''id'', JStr ''dev-1''),
                 (''attributes'', JObj [(''isPanel'', JBool True), (''armingLevel'', JStr ''armstay'')])] = Inr dev
        \<and> device_type dev = PANEL \<and> is_panel dev \<and> arming_state dev = ARMED_STAY \<and> is_armed dev)
   \<and> (\<exists>dev. Device_from_api [(''id'', JStr ''dev-2''),
                 (''attributes'', JObj [(''armingLevel'', JStr ''armed_custom'')])] = Inr dev
        \<and> arming_state dev = ArmingState.UNKNOWN)"
  using Device_from_api_panel_armed [of "[(''id'', JStr ''dev-1''),
                 (''attributes'', JObj [(''isPanel'', JBool True), (''armingLevel'', JStr ''armstay'')])]"
                 "[(''isPanel'', JBool True), (''armingLevel'', JStr ''armstay'')]"]
        Device_from_api_panel_armed [of "[(''id'', JStr ''dev-2''),
                 (''attributes'', JObj [(''armingLevel'', JStr ''armed_custom'')])]"
                 "[(''armingLevel'', JStr ''armed_custom'')]"]
  by simp

text \<open>
  C10: a device returned by \<open>Device.from_api\<close> is never both a panel and a camera; every
  record whose attributes are an object (or absent) gets a device with the one type chosen
  by \<open>isPanel\<close>, then \<open>isCamera\<close>; when both are set the device is a panel.
\<close>

theorem Device_from_api_one_type:
  "(Device_from_api data = Inr dev \<longrightarrow> \<not> (is_panel dev \<and> is_camera dev))
   \<and> (get_or data ''attributes'' (JObj []) = JObj attrs
        \<longrightarrow> (\<exists>dev. Device_from_api data = Inr dev \<and> device_type dev = parse_device_type attrs))
   \<and> (get_or data ''attributes'' (JObj []) = JObj attrs
        \<and> truthy (get_or attrs ''isPanel'' JNull) \<and> truthy (get_or attrs ''isCamera'' JNull)
        \<longrightarrow> (\<exists>dev. Device_from_api data = Inr dev \<and> is_panel dev \<and> \<not> is_camera dev))"
  by (auto simp: Device_from_api_def parse_device_type_def is_panel_def is_camera_def)

theorem Device_from_api_one_type_witness:
  "\<exists>dev. Device_from_api [(''attributes'', JObj [(''isPanel'', JBool True), (''isCamera'', JBool True)])] = Inr dev
      \<and> is_panel dev \<and> \<not> is_camera dev"
  using Device_from_api_one_type [of "[(''attributes'', JObj [(''isPanel'', JBool True), (''isCamera'', JBool True)])]"
       _ "[(''isPanel'', JBool True), (''isCamera'', JBool True)]"]
  by (simp add: get_or_def)

section \<open>Zone discovery: properties\<close>

lemma scan_zones_map_of:
  "scan_zones es zs = Inr zones \<Longrightarrow>
     map_of zones k =
       (case map_of zs k of
          Some v \<Rightarrow> Some v
        | None \<Rightarrow> if k = 0 then None else map_of (List.map_filter contribution es) k)"
proof (induction es arbitrary: zs)
  case Nil
  then show ?case by (simp split: option.splits)
next
  case (Cons e es)
  show ?case
  proof (cases "zone_entry e")
    case (Inl err)
    with Cons.prems show ?thesis by simp
  next
    case (Inr r)
    show ?thesis
    proof (cases r)
      case None
      with Inr Cons.prems have "scan_zones es zs = Inr zones" by simp
      from Cons.IH[OF this] None Inr show ?thesis
        by (simp add: contribution_def split: option.splits)
    next
      case (Some p)
      obtain i info where p: "p = (i, info)" by (cases p)
      show ?thesis
      proof (cases "i = 0 \<or> map_of zs i \<noteq> None")
        case True
        with Inr Some p Cons.prems have "scan_zones es zs = Inr zones" by simp
        from Cons.IH[OF this] True Inr Some p show ?thesis
          by (auto simp: contribution_def split: option.splits)
      next
        case False
        with Inr Some p Cons.prems have "scan_zones es (zs @ [(i, info)]) = Inr zones" by simp
        from Cons.IH[OF this] False Inr Some p show ?thesis
          by (auto simp: contribution_def map_add_def split: option.splits)
      qed
    qed
  qed
qed

lemma scan_zones_distinct:
  "scan_zones es zs = Inr zones \<Longrightarrow> distinct (map fst zs) \<Longrightarrow> distinct (map fst zones)"
proof (induction es arbitrary: zs)
  case Nil
  then show ?case by simp
next
  case (Cons e es)
  then show ?case
    by (auto simp: map_of_eq_None_iff split: sum.splits option.splits if_splits)
qed

lemma scan_zones_origin:
  "scan_zones es zs = Inr zones \<Longrightarrow> (k, info) \<in> set zones \<Longrightarrow>
     (k, info) \<in> set zs \<or> (k \<noteq> 0 \<and> (\<exists>e. e \<in> set es \<and> zone_entry e = Inr (Some (k, info))))"
proof (induction es arbitrary: zs)
  case Nil
  then show ?case by simp
next
  case (Cons e es)
  then show ?case
    by (fastforce split: sum.splits option.splits if_splits)
qed

lemma zone_entry_Some:
  "zone_entry entry = Inr (Some (k, info)) \<Longrightarrow>
     \<exists>e attrs s. entry = JObj e \<and> get_or e ''attributes'' (JObj []) = JObj attrs
        \<and> get_or attrs ''signalUserZone'' (JStr '''') = JStr s
        \<and> s \<noteq> [] \<and> list_all decimal_char s \<and> decimal_value s = k
        \<and> info = [(''zone_name'', get_or attrs ''signalUserZoneAlias'' JNull),
                   (''zone_type'', get_or attrs ''signalUserZoneType'' (JStr ''''))]"
  by (auto simp: zone_entry_def Let_def py_int_def isdigit_def
      split: json.splits if_splits option.splits)

lemma scan_zones_total:
  "(\<exists>zones. scan_zones es zs = Inr zones) \<longleftrightarrow> list_all (\<lambda>e. \<not> isl (zone_entry e)) es"
proof (induction es arbitrary: zs)
  case Nil
  show ?case by simp
next
  case (Cons e es)
  show ?case
  proof (cases "zone_entry e")
    case (Inl err)
    then show ?thesis by simp
  next
    case (Inr r)
    show ?thesis
    proof (cases r)
      case None
      with Inr Cons.IH[of zs] show ?thesis by simp
    next
      case (Some p)
      obtain i info where "p = (i, info)" by (cases p)
      with Some Inr Cons.IH[of zs] Cons.IH[of "zs @ [(i, info)]"] show ?thesis by simp
    qed
  qed
qed

lemma scan_example:
  "scan_zones example_log [] =
     Inr [(3, [(''zone_name'', JStr ''Front Door''), (''zone_type'', JStr ''door'')]),
          (5, [(''zone_name'', JStr ''Hall Motion''), (''zone_type'', JStr ''motion'')])]"
  by (simp add: example_log_def log_entry_def zone_entry_def get_or_def isdigit_def
      digit_char_def py_int_def decimal_char_def decimal_value_def)

text \<open>
  What the scan of an event-log page returns when it returns: the zone indices are distinct,
  the entry stored for an index is the one offered by the first log entry that decodes to
  it, index 0 is never stored, and every stored entry comes from a log entry whose
  \<open>signalUserZone\<close> is a non-empty string of decimal digits with that non-zero value. The scan
  returns exactly when no entry raises, and \<open>async_discover_zones\<close> returns the scan of the
  page that the pipeline fetched. The log with zone fields "3", "3", "0", "5", "" gives the
  indices 3 and 5, each with the name and type of its first entry.
\<close>

lemma scan_zones_first_occurrence:
  "(scan_zones entries [] = Inr zones \<longrightarrow>
      distinct (map fst zones)
      \<and> (\<forall>k. map_of zones k =
               (if k = 0 then None else map_of (List.map_filter contribution entries) k))
      \<and> (\<forall>k info. (k, info) \<in> set zones \<longrightarrow>
            k \<noteq> 0 \<and>
            (\<exists>e attrs s. JObj e \<in> set entries
               \<and> get_or e ''attributes'' (JObj []) = JObj attrs
               \<and> get_or attrs ''signalUserZone'' (JStr '''') = JStr s
               \<and> s \<noteq> [] \<and> list_all decimal_char s \<and> decimal_value s = k
               \<and> info = [(''zone_name'', get_or attrs ''signalUserZoneAlias'' JNull),
                          (''zone_type'', get_or attrs ''signalUserZoneType'' (JStr ''''))])))
   \<and> ((\<exists>zs. scan_zones entries [] = Inr zs) \<longleftrightarrow> list_all (\<lambda>e. \<not> isl (zone_entry e)) entries)
   \<and> (request ''GET'' (''/api/v1/devices/'' @ device_id @ ''/eventlog'') None
          (Some [(''customOptions[omitRelationships]'', ''true''), (''page[size]'', ''500''),
                 (''sort'', ''-dateEntered'')]) c w = (Inr result, c1, w1)
        \<and> get_or result ''data'' (JArr []) = JArr entries
        \<longrightarrow> async_discover_zones device_id c w = (scan_zones entries [], c1, w1))
   \<and> scan_zones example_log [] =
       Inr [(3, [(''zone_name'', JStr ''Front Door''), (''zone_type'', JStr ''door'')]),
            (5, [(''zone_name'', JStr ''Hall Motion''), (''zone_type'', JStr ''motion'')])]"
proof (intro conjI impI allI)
  assume ok: "scan_zones entries [] = Inr zones"
  show "distinct (map fst zones)"
    using scan_zones_distinct[OF ok] by simp
  show "map_of zones k =
          (if k = 0 then None else map_of (List.map_filter contribution entries) k)" for k
    using scan_zones_map_of[OF ok, of k] by simp
  fix k info assume mem: "(k, info) \<in> set zones"
  from scan_zones_origin[OF ok mem]
  obtain entry where k: "k \<noteq> 0" and entry: "entry \<in> set entries"
    and ze: "zone_entry entry = Inr (Some (k, info))" by auto
  show "k \<noteq> 0" by (rule k)
  from zone_entry_Some[OF ze] entry
  show "\<exists>e attrs s. JObj e \<in> set entries
               \<and> get_or e ''attributes'' (JObj []) = JObj attrs
               \<and> get_or attrs ''signalUserZone'' (JStr '''') = JStr s
               \<and> s \<noteq> [] \<and> list_all decimal_char s \<and> decimal_value s = k
               \<and> info = [(''zone_name'', get_or attrs ''signalUserZoneAlias'' JNull),
                          (''zone_type'', get_or attrs ''signalUserZoneType'' (JStr ''''))]"
    by blast
next
  show "(\<exists>zs. scan_zones entries [] = Inr zs) \<longleftrightarrow> list_all (\<lambda>e. \<not> isl (zone_entry e)) entries"
    by (rule scan_zones_total)
next
  assume "request ''GET'' (''/api/v1/devices/'' @ device_id @ ''/eventlog'') None
          (Some [(''customOptions[omitRelationships]'', ''true''), (''page[size]'', ''500''),
                 (''sort'', ''-dateEntered'')]) c w = (Inr result, c1, w1)
        \<and> get_or result ''data'' (JArr []) = JArr entries"
  then show "async_discover_zones device_id c w = (scan_zones entries [], c1, w1)"
    by (simp add: async_discover_zones_def)
next
  show "scan_zones example_log [] =
       Inr [(3, [(''zone_name'', JStr ''Front Door''), (''zone_type'', JStr ''door'')]),
            (5, [(''zone_name'', JStr ''Hall Motion''), (''zone_type'', JStr ''motion'')])]"
    by (rule scan_example)
qed

lemma scan_zones_first_occurrence_example:
  "scan_zones example_log [] =
     Inr [(3, [(''zone_name'', JStr ''Front Door''), (''zone_type'', JStr ''door'')]),
          (5, [(''zone_name'', JStr ''Hall Motion''), (''zone_type'', JStr ''motion'')])]
   \<and> distinct (map fst
        [(3::int, [(''zone_name'', JStr ''Front Door''), (''zone_type'', JStr ''door'')]),
         (5, [(''zone_name'', JStr ''Hall Motion''), (''zone_type'', JStr ''motion'')])])
   \<and> (\<forall>k. map_of
        [(3, [(''zone_name'', JStr ''Front Door''), (''zone_type'', JStr ''door'')]),
         (5, [(''zone_name'', JStr ''Hall Motion''), (''zone_type'', JStr ''motion'')])] k
        = (if k = 0 then None else map_of (List.map_filter contribution example_log) k))"
  using scan_zones_first_occurrence [of example_log
     "[(3, [(''zone_name'', JStr ''Front Door''), (''zone_type'', JStr ''door'')]),
       (5, [(''zone_name'', JStr ''Hall Motion''), (''zone_type'', JStr ''motion'')])]"]
  by simp

text \<open>
  A zone field that holds a character outside the digits of \<open>isdigit()\<close> is skipped.
\<close>

lemma zone_entry_non_digit_skipped:
  assumes "get_or e ''attributes'' (JObj []) = JObj attrs"
    and "get_or attrs ''signalUserZone'' (JStr '''') = JStr s"
    and "\<not> list_all digit_char s"
  shows "zone_entry (JObj e) = Inr None"
  using assms by (simp add: zone_entry_def isdigit_def)

text \<open>
  C4: a zone field that is not a number is not always skipped. The superscript two passes
  \<open>isdigit()\<close> and is refused by \<open>int()\<close>: on a log holding zone "5" and then such a field the
  scan raises a ValueError, and so does \<open>async_discover_zones\<close>, so that zone 5, found before
  and returned by the scan of the first entry alone, is lost.
\<close>

theorem discover_zones_superscript_raises:
  "scan_zones [log_entry ''5'' ''Hall Motion'' ''motion''] [] =
     Inr [(5, [(''zone_name'', JStr ''Hall Motion''), (''zone_type'', JStr ''motion'')])]
   \<and> scan_zones [log_entry ''5'' ''Hall Motion'' ''motion'',
                  log_entry [CHR 0xB2] ''Side Door'' ''door''] [] = Inl (Uncaught ''ValueError'')
   \<and> async_discover_zones ''dev'' restored_client superscript_log =
       (Inl (Uncaught ''ValueError''), restored_client,
        superscript_log\<lparr>sent :=
          [ApiRequest ''GET'' ''https://api/api/v1/devices/dev/eventlog''
             (request_headers (JStr ''old'') None) None
             (Some [(''customOptions[omitRelationships]'', ''true''), (''page[size]'', ''500''),
                    (''sort'', ''-dateEntered'')])]\<rparr>)"
  by (simp add: async_discover_zones_def request_def ensure_token_def is_authenticated_def
      now_def http_def read_body_def restored_client_def superscript_log_def
      TOKEN_REFRESH_BUFFER_def Let_def
      log_entry_def zone_entry_def get_or_def isdigit_def digit_char_def py_int_def
      decimal_char_def decimal_value_def)


section \<open>Zone subscriptions: properties\<close>

lemma subscribe_all_foldl:
  "subscribe_all keys dev zs st =
     foldl (\<lambda>st p. create_subscription dev p st) st (missing keys dev zs)"
  by (induction zs arbitrary: st) (simp_all add: missing_def subscribe_def)

lemma foldl_create_attempts:
  "foldl (\<lambda>st p. create_subscription dev p st) (n, c, w) ps =
     (case attempts dev ps c w of
        (rs, c2, w2) \<Rightarrow> (n + length (filter (\<lambda>r. \<not> isl r) rs), c2, w2))"
proof (induction ps arbitrary: n c w)
  case Nil
  show ?case by simp
next
  case (Cons p ps)
  obtain r c1 w1 where req: "request ''POST'' ''/api/v1/events/notifications/zones''
             (Some (subscription_payload dev (fst p) (snd p))) None c w = (r, c1, w1)"
    by (cases "request ''POST'' ''/api/v1/events/notifications/zones''
             (Some (subscription_payload dev (fst p) (snd p))) None c w") auto
  obtain rs c2 w2 where rest: "attempts dev ps c1 w1 = (rs, c2, w2)"
    by (cases "attempts dev ps c1 w1") auto
  show ?case
    using req rest Cons.IH[of _ c1 w1]
    by (cases r) (simp_all add: create_subscription_def)
qed

lemma attempts_length: "length (fst (attempts dev ps c w)) = length ps"
proof (induction ps arbitrary: c w)
  case Nil
  show ?case by simp
next
  case (Cons p ps)
  obtain r c1 w1 where req: "request ''POST'' ''/api/v1/events/notifications/zones''
             (Some (subscription_payload dev (fst p) (snd p))) None c w = (r, c1, w1)"
    by (cases "request ''POST'' ''/api/v1/events/notifications/zones''
             (Some (subscription_payload dev (fst p) (snd p))) None c w") auto
  show ?case
    using req Cons.IH[of c1 w1] by (auto split: prod.splits)
qed

lemma missing_iff:
  "(z, s) \<in> set (missing keys dev zs) \<longleftrightarrow> z \<in> set zs \<and> \<not> key_present keys dev z s"
  by (auto simp: missing_def)

lemma get_zones_empty_feed:
  "async_get_zones restored_client empty_feed =
     (Inr [], restored_client,
      empty_feed\<lparr>sent :=
        [ApiRequest ''GET'' ''https://api/api/v1/events/notifications/zones''
           (request_headers (JStr ''old'') None) None
           (Some [(''page[size]'', ''200''), (''sort'', ''id'')])]\<rparr>)"
  by (simp add: async_get_zones_def request_def ensure_token_def is_authenticated_def now_def
      http_def read_body_def get_or_def restored_client_def empty_feed_def
      TOKEN_REFRESH_BUFFER_def Let_def)

lemma ensure_empty_feed:
  "async_ensure_zone_subscriptions ''dev'' [3] restored_client empty_feed =
     (Inr 2, restored_client,
      empty_feed\<lparr>sent :=
        [ApiRequest ''GET'' ''https://api/api/v1/events/notifications/zones''
           (request_headers (JStr ''old'') None) None
           (Some [(''page[size]'', ''200''), (''sort'', ''id'')]),
         ApiRequest ''POST'' ''https://api/api/v1/events/notifications/zones''
           (request_headers (JStr ''old'') (Some (subscription_payload ''dev'' 3 True)))
           (Some (subscription_payload ''dev'' 3 True)) None,
         ApiRequest ''POST'' ''https://api/api/v1/events/notifications/zones''
           (request_headers (JStr ''old'') (Some (subscription_payload ''dev'' 3 False)))
           (Some (subscription_payload ''dev'' 3 False)) None]\<rparr>)"
  by (simp add: async_ensure_zone_subscriptions_def async_get_zones_def request_def
      ensure_token_def is_authenticated_def now_def http_def read_body_def get_or_def
      subscribe_def create_subscription_def key_present_def restored_client_def empty_feed_def
      TOKEN_REFRESH_BUFFER_def Let_def)

lemma ensure_full_feed:
  "async_ensure_zone_subscriptions ''dev'' [3] restored_client full_feed =
     (Inr 0, restored_client,
      full_feed\<lparr>sent :=
        [ApiRequest ''GET'' ''https://api/api/v1/events/notifications/zones''
           (request_headers (JStr ''old'') None) None
           (Some [(''page[size]'', ''200''), (''sort'', ''id'')])]\<rparr>)"
  by (simp add: async_ensure_zone_subscriptions_def async_get_zones_def request_def
      ensure_token_def is_authenticated_def now_def http_def read_body_def get_or_def
      Zone_from_api_def as_dict_def parse_zone_name_def parse_device_type_hint_def
      ZoneStatus_from_api_def py_or_def subscription_def
      subscribe_def create_subscription_def key_present_def restored_client_def full_feed_def
      TOKEN_REFRESH_BUFFER_def Let_def)

text \<open>Keys are built from the zones in order, and membership is Python's equality.\<close>

lemma existing_keys_map:
  "existing_keys zs = Inr keys \<Longrightarrow>
     keys = map (\<lambda>z. (zone_device_id z, zone_index z, is_active (zone_status z))) zs"
  by (induction zs arbitrary: keys) (auto split: if_splits sum.splits)

lemma py_eq_int_iff:
  "py_eq_int v n \<longleftrightarrow> v = JInt n \<or> (\<exists>b. v = JBool b \<and> (if b then 1 else 0) = n)"
  by (cases v) auto

lemma py_eq_bool_iff:
  "py_eq_int a (if s then 1 else 0) \<longleftrightarrow> a = JBool s \<or> a = JInt (if s then 1 else 0)"
  by (cases a) (auto split: if_splits)

lemma key_present_Cons:
  "key_present ((d, i, a) # keys) dev z s \<longleftrightarrow>
     (d = JStr dev \<and> py_eq_int i z \<and> py_eq_int a (if s then 1 else 0))
     \<or> key_present keys dev z s"
  by (simp add: key_present_def)

lemma key_present_iff:
  "key_present keys dev z s \<longleftrightarrow>
     (\<exists>i a. (JStr dev, i, a) \<in> set keys
        \<and> (i = JInt z \<or> (\<exists>b. i = JBool b \<and> (if b then 1 else 0) = z))
        \<and> (a = JBool s \<or> a = JInt (if s then 1 else 0)))"
proof (induction keys)
  case Nil
  show ?case by (simp add: key_present_def)
next
  case (Cons k keys)
  obtain d i a where k: "k = (d, i, a)" by (cases k)
  have here: "(d = JStr dev \<and> py_eq_int i z \<and> py_eq_int a (if s then 1 else 0)) \<longleftrightarrow>
      (d = JStr dev \<and> (i = JInt z \<or> (\<exists>b. i = JBool b \<and> (if b then 1 else 0) = z))
        \<and> (a = JBool s \<or> a = JInt (if s then 1 else 0)))"
    using py_eq_int_iff[of i z] py_eq_bool_iff[of a s] by blast
  have "key_present (k # keys) dev z s \<longleftrightarrow>
      (d = JStr dev \<and> (i = JInt z \<or> (\<exists>b. i = JBool b \<and> (if b then 1 else 0) = z))
        \<and> (a = JBool s \<or> a = JInt (if s then 1 else 0)))
      \<or> (\<exists>i a. (JStr dev, i, a) \<in> set keys
        \<and> (i = JInt z \<or> (\<exists>b. i = JBool b \<and> (if b then 1 else 0) = z))
        \<and> (a = JBool s \<or> a = JInt (if s then 1 else 0)))"
    using key_present_Cons[of d i a keys dev z s] here Cons.IH k by blast
  also have "\<dots> \<longleftrightarrow> (\<exists>i' a'. (JStr dev, i', a') \<in> set (k # keys)
        \<and> (i' = JInt z \<or> (\<exists>b. i' = JBool b \<and> (if b then 1 else 0) = z))
        \<and> (a' = JBool s \<or> a' = JInt (if s then 1 else 0)))"
    unfolding k by (simp only: set_simps insert_iff prod.inject) blast
  finally show ?case .
qed

lemma ensure_mixed_feed:
  "async_ensure_zone_subscriptions ''dev'' [3, 4] restored_client mixed_feed =
     (Inr 2, restored_client,
      mixed_feed\<lparr>sent :=
        [ApiRequest ''GET'' ''https://api/api/v1/events/notifications/zones''
           (request_headers (JStr ''old'') None) None
           (Some [(''page[size]'', ''200''), (''sort'', ''id'')]),
         ApiRequest ''POST'' ''https://api/api/v1/events/notifications/zones''
           (request_headers (JStr ''old'') (Some (subscription_payload ''dev'' 3 False)))
           (Some (subscription_payload ''dev'' 3 False)) None,
         ApiRequest ''POST'' ''https://api/api/v1/events/notifications/zones''
           (request_headers (JStr ''old'') (Some (subscription_payload ''dev'' 4 True)))
           (Some (subscription_payload ''dev'' 4 True)) None]\<rparr>)"
  by (simp add: async_ensure_zone_subscriptions_def async_get_zones_def request_def
      ensure_token_def is_authenticated_def now_def http_def read_body_def get_or_def
      Zone_from_api_def as_dict_def parse_zone_name_def parse_device_type_hint_def
      ZoneStatus_from_api_def py_or_def subscription_def
      subscribe_def create_subscription_def key_present_def restored_client_def mixed_feed_def
      TOKEN_REFRESH_BUFFER_def Let_def)

lemma ensure_rejecting_feed:
  "async_ensure_zone_subscriptions ''dev'' [3] restored_client rejecting_feed =
     (Inr 0, restored_client,
      rejecting_feed\<lparr>sent :=
        [ApiRequest ''GET'' ''https://api/api/v1/events/notifications/zones''
           (request_headers (JStr ''old'') None) None
           (Some [(''page[size]'', ''200''), (''sort'', ''id'')]),
         ApiRequest ''POST'' ''https://api/api/v1/events/notifications/zones''
           (request_headers (JStr ''old'') (Some (subscription_payload ''dev'' 3 True)))
           (Some (subscription_payload ''dev'' 3 True)) None,
         ApiRequest ''POST'' ''https://api/api/v1/events/notifications/zones''
           (request_headers (JStr ''old'') (Some (subscription_payload ''dev'' 3 False)))
           (Some (subscription_payload ''dev'' 3 False)) None]\<rparr>)"
  by (simp add: async_ensure_zone_subscriptions_def async_get_zones_def request_def
      ensure_token_def is_authenticated_def now_def http_def read_body_def get_or_def
      subscribe_def create_subscription_def key_present_def restored_client_def
      rejecting_feed_def TOKEN_REFRESH_BUFFER_def Let_def)

text \<open>
  C3: once the existing subscriptions are fetched and their keys
  \<open>(device_id, zone_index, is_active)\<close> built, \<open>async_ensure_zone_subscriptions\<close> attempts one
  create for each requested zone index and each of \<open>True\<close>, \<open>False\<close> for which no fetched key
  has the device, an index equal to the zone index and a status equal to \<open>status_on\<close> (with
  Python's equality of bools and ints), and for no other; it never raises for a failed
  create, and it returns the number of attempted creates that succeeded. When no key is
  missing nothing is sent and the result is 0. Against a feed without subscriptions, zone 3
  gets exactly two creates (on, then off) and the result is 2; against a feed holding both,
  no create is sent and the result is 0; against a feed holding the "on" key of zone 3, the
  "off" key of zone 4 and a key of another device, zones 3 and 4 get the creates for
  (3, off) and (4, on) only; and when the server rejects every create the result is 0 and
  nothing is raised.
\<close>

theorem ensure_zone_subscriptions_missing_keys:
  "(async_get_zones c w = (Inr existing, c1, w1) \<and> existing_keys existing = Inr keys \<longrightarrow>
      keys = map (\<lambda>z. (zone_device_id z, zone_index z, is_active (zone_status z))) existing
      \<and> async_ensure_zone_subscriptions dev zone_indices c w =
        (case attempts dev (missing keys dev zone_indices) c1 w1 of
           (rs, c2, w2) \<Rightarrow> (Inr (length (filter (\<lambda>r. \<not> isl r) rs)), c2, w2))
      \<and> length (fst (attempts dev (missing keys dev zone_indices) c1 w1))
          = length (missing keys dev zone_indices)
      \<and> (missing keys dev zone_indices = [] \<longrightarrow>
            async_ensure_zone_subscriptions dev zone_indices c w = (Inr 0, c1, w1)))
   \<and> (\<forall>z s. (z, s) \<in> set (missing keys dev zone_indices)
               \<longleftrightarrow> z \<in> set zone_indices \<and> \<not> key_present keys dev z s)
   \<and> (\<forall>z s. (z, s) \<in> set (missing keys dev zone_indices)
               \<longleftrightarrow> z \<in> set zone_indices
                   \<and> \<not> (\<exists>i a. (JStr dev, i, a) \<in> set keys
                          \<and> (i = JInt z \<or> (\<exists>b. i = JBool b \<and> (if b then 1 else 0) = z))
                          \<and> (a = JBool s \<or> a = JInt (if s then 1 else 0))))
   \<and> (\<forall>z s. (JStr dev, JInt z, JBool s) \<in> set keys
               \<longrightarrow> (z, s) \<notin> set (missing keys dev zone_indices))
   \<and> missing [(JStr ''dev'', JInt 3, JBool True), (JStr ''other'', JInt 3, JBool False),
                (JStr ''dev'', JInt 4, JBool False)] ''dev'' [3, 4]
       = [(3, False), (4, True)]
   \<and> async_ensure_zone_subscriptions ''dev'' [3] restored_client empty_feed =
       (Inr 2, restored_client,
        empty_feed\<lparr>sent :=
          [ApiRequest ''GET'' ''https://api/api/v1/events/notifications/zones''
             (request_headers (JStr ''old'') None) None
             (Some [(''page[size]'', ''200''), (''sort'', ''id'')]),
           ApiRequest ''POST'' ''https://api/api/v1/events/notifications/zones''
             (request_headers (JStr ''old'') (Some (subscription_payload ''dev'' 3 True)))
             (Some (subscription_payload ''dev'' 3 True)) None,
           ApiRequest ''POST'' ''https://api/api/v1/events/notifications/zones''
             (request_headers (JStr ''old'') (Some (subscription_payload ''dev'' 3 False)))
             (Some (subscription_payload ''dev'' 3 False)) None]\<rparr>)
   \<and> async_ensure_zone_subscriptions ''dev'' [3] restored_client full_feed =
       (Inr 0, restored_client,
        full_feed\<lparr>sent :=
          [ApiRequest ''GET'' ''https://api/api/v1/events/notifications/zones''
             (request_headers (JStr ''old'') None) None
             (Some [(''page[size]'', ''200''), (''sort'', ''id'')])]\<rparr>)
   \<and> async_ensure_zone_subscriptions ''dev'' [3, 4] restored_client mixed_feed =
       (Inr 2, restored_client,
        mixed_feed\<lparr>sent :=
          [ApiRequest ''GET'' ''https://api/api/v1/events/notifications/zones''
             (request_headers (JStr ''old'') None) None
             (Some [(''page[size]'', ''200''), (''sort'', ''id'')]),
           ApiRequest ''POST'' ''https://api/api/v1/events/notifications/zones''
             (request_headers (JStr ''old'') (Some (subscription_payload ''dev'' 3 False)))
             (Some (subscription_payload ''dev'' 3 False)) None,
           ApiRequest ''POST'' ''https://api/api/v1/events/notifications/zones''
             (request_headers (JStr ''old'') (Some (subscription_payload ''dev'' 4 True)))
             (Some (subscription_payload ''dev'' 4 True)) None]\<rparr>)
   \<and> async_ensure_zone_subscriptions ''dev'' [3] restored_client rejecting_feed =
       (Inr 0, restored_client,
        rejecting_feed\<lparr>sent :=
          [ApiRequest ''GET'' ''https://api/api/v1/events/notifications/zones''
             (request_headers (JStr ''old'') None) None
             (Some [(''page[size]'', ''200''), (''sort'', ''id'')]),
           ApiRequest ''POST'' ''https://api/api/v1/events/notifications/zones''
             (request_headers (JStr ''old'') (Some (subscription_payload ''dev'' 3 True)))
             (Some (subscription_payload ''dev'' 3 True)) None,
           ApiRequest ''POST'' ''https://api/api/v1/events/notifications/zones''
             (request_headers (JStr ''old'') (Some (subscription_payload ''dev'' 3 False)))
             (Some (subscription_payload ''dev'' 3 False)) None]\<rparr>)"
proof (intro conjI impI allI)
  assume pre: "async_get_zones c w = (Inr existing, c1, w1) \<and> existing_keys existing = Inr keys"
  from pre show "keys = map (\<lambda>z. (zone_device_id z, zone_index z, is_active (zone_status z))) existing"
    by (simp add: existing_keys_map)
  show run: "async_ensure_zone_subscriptions dev zone_indices c w =
        (case attempts dev (missing keys dev zone_indices) c1 w1 of
           (rs, c2, w2) \<Rightarrow> (Inr (length (filter (\<lambda>r. \<not> isl r) rs)), c2, w2))"
    using pre
    by (simp add: async_ensure_zone_subscriptions_def subscribe_all_foldl foldl_create_attempts
        split: prod.splits)
  show "length (fst (attempts dev (missing keys dev zone_indices) c1 w1))
          = length (missing keys dev zone_indices)"
    by (rule attempts_length)
  assume "missing keys dev zone_indices = []"
  with run show "async_ensure_zone_subscriptions dev zone_indices c w = (Inr 0, c1, w1)"
    by simp
next
  show "(z, s) \<in> set (missing keys dev zone_indices)
               \<longleftrightarrow> z \<in> set zone_indices \<and> \<not> key_present keys dev z s" for z s
    by (rule missing_iff)
next
  show "(z, s) \<in> set (missing keys dev zone_indices)
               \<longleftrightarrow> z \<in> set zone_indices
                   \<and> \<not> (\<exists>i a. (JStr dev, i, a) \<in> set keys
                          \<and> (i = JInt z \<or> (\<exists>b. i = JBool b \<and> (if b then 1 else 0) = z))
                          \<and> (a = JBool s \<or> a = JInt (if s then 1 else 0)))" for z s
    unfolding missing_iff key_present_iff ..
next
  fix z s assume "(JStr dev, JInt z, JBool s) \<in> set keys"
  then have "key_present keys dev z s"
    unfolding key_present_iff by blast
  then show "(z, s) \<notin> set (missing keys dev zone_indices)"
    by (simp add: missing_iff)
next
  show "missing [(JStr ''dev'', JInt 3, JBool True), (JStr ''other'', JInt 3, JBool False),
                (JStr ''dev'', JInt 4, JBool False)] ''dev'' [3, 4]
       = [(3, False), (4, True)]"
    by (simp add: missing_def key_present_def)
qed (rule ensure_empty_feed ensure_full_feed ensure_mixed_feed ensure_rejecting_feed)+

theorem ensure_zone_subscriptions_missing_keys_witness:
  "async_get_zones restored_client empty_feed =
     (Inr [], restored_client,
      empty_feed\<lparr>sent :=
        [ApiRequest ''GET'' ''https://api/api/v1/events/notifications/zones''
           (request_headers (JStr ''old'') None) None
           (Some [(''page[size]'', ''200''), (''sort'', ''id'')])]\<rparr>)
   \<and> existing_keys [] = Inr []
   \<and> missing [] ''dev'' [3] = [(3, True), (3, False)]
   \<and> length (fst (attempts ''dev'' (missing [] ''dev'' [3]) restored_client
        (empty_feed\<lparr>sent :=
           [ApiRequest ''GET'' ''https://api/api/v1/events/notifications/zones''
              (request_headers (JStr ''old'') None) None
              (Some [(''page[size]'', ''200''), (''sort'', ''id'')])]\<rparr>))) = 2
   \<and> fst (async_ensure_zone_subscriptions ''dev'' [3] restored_client empty_feed) = Inr 2"
proof -
  have m: "missing [] ''dev'' [3] = [(3, True), (3, False)]"
    by (simp add: missing_def key_present_def)
  have k: "existing_keys [] = Inr []" by simp
  have pre: "async_get_zones restored_client empty_feed =
     (Inr [], restored_client,
      empty_feed\<lparr>sent :=
        [ApiRequest ''GET'' ''https://api/api/v1/events/notifications/zones''
           (request_headers (JStr ''old'') None) None
           (Some [(''page[size]'', ''200''), (''sort'', ''id'')])]\<rparr>)
     \<and> existing_keys [] = Inr []"
    using get_zones_empty_feed k by simp
  note inst = ensure_zone_subscriptions_missing_keys
         [of restored_client empty_feed "[]" restored_client
             "empty_feed\<lparr>sent :=
                [ApiRequest ''GET'' ''https://api/api/v1/events/notifications/zones''
                   (request_headers (JStr ''old'') None) None
                   (Some [(''page[size]'', ''200''), (''sort'', ''id'')])]\<rparr>"
             "[]" "''dev''" "[3]"]
  from inst pre have len: "length (fst (attempts ''dev'' (missing [] ''dev'' [3]) restored_client
        (empty_feed\<lparr>sent :=
           [ApiRequest ''GET'' ''https://api/api/v1/events/notifications/zones''
              (request_headers (JStr ''old'') None) None
              (Some [(''page[size]'', ''200''), (''sort'', ''id'')])]\<rparr>)))
      = length (missing [] ''dev'' [3])"
    by blast
  from inst have two: "fst (async_ensure_zone_subscriptions ''dev'' [3] restored_client empty_feed) = Inr 2"
    by simp
  from pre m len two show ?thesis by simp
qed

section \<open>Further evaluations\<close>

text \<open>
  A server that answers 401 before and after a granted refresh: the pipeline stops with the
  AuthError after two attempts of the request and one token call.
\<close>

lemma request_401_twice:
  "request ''GET'' ''/api/v1/self'' None None restored_client always_401
     = (Inl (AlulaAuthError [Lit ''Authentication failed after refresh'']),
        restored_client\<lparr>access_token := JStr ''new'', refresh_token := JStr ''refresh2'',
                         token_expiry := 1900\<rparr>,
        always_401\<lparr>sent :=
          [ApiRequest ''GET'' ''https://api/api/v1/self'' (request_headers (JStr ''old'') None) None None,
           FormPost ''https://api/oauth/token''
             [(''client_id'', JStr ''id''), (''client_secret'', JStr ''secret''),
              (''grant_type'', JStr ''refresh_token''), (''refresh_token'', JStr ''refresh'')]
             auth_headers,
           ApiRequest ''GET'' ''https://api/api/v1/self'' (request_headers (JStr ''new'') None) None None]\<rparr>)"
  by (simp add: request_def ensure_token_def is_authenticated_def now_def http_def
      async_refresh_def py_or_def token_request_def store_tokens_def get_or_def oauth_url_def
      restored_client_def always_401_def TOKEN_REFRESH_BUFFER_def TOKEN_EXPIRES_IN_DEFAULT_def
      Let_def)

end
